theory Spec2Isabelle
  imports Complex_Main "HOL-Library.Multiset"
begin

section \<open>Data model (types/graveyard.ts)\<close>

text \<open>
  JavaScript numbers that carry scores, costs and latencies are modelled as \<open>real\<close>;
  values read from the JSON log are finite, so no NaN arises among them. Indices, page
  numbers and epoch milliseconds are \<open>int\<close>. A TypeScript optional field \<open>f?: T\<close> is a
  \<open>T option\<close>, \<open>None\<close> standing for \<open>undefined\<close>. A \<open>Record<string, T>\<close> is an association
  list in insertion order, which is the order \<open>Object.keys\<close>, \<open>Object.values\<close> and
  \<open>Object.entries\<close> enumerate. Several interfaces of the source share field names; the
  later records carry a short prefix (\<open>s_\<close> PromptSummary, \<open>f_\<close> FilterParams where
  needed, \<open>a_\<close> RevivalAttempt, \<open>rq_\<close> RevivalRequest, \<open>r_\<close> RevivalResponse, \<open>z_\<close> the
  result of \<open>getZombiePrompts\<close>).
\<close>

record spooky_metric =
  metric_value :: real
  normalized_score :: real
  category :: string
  weight :: real

record llm_response =
  response :: "string option"
  latency_ms :: "real option"
  cost_usd :: "real option"
  resp_timestamp :: string
  model :: "string option"
  error :: "string option"

record zombie_status =
  is_zombie :: bool
  overall_score :: real
  severity :: string
  visual_theme :: string
  revival_priority :: string
  failed_critical_metrics :: "string list"
  reason :: string

record revival_suggestion =
  improved_prompt :: string
  strategy :: string
  technique :: string
  reasoning :: string
  confidence_score :: real
  expected_improvements :: "(string \<times> real) list"

record evaluation_result =
  prompt_id :: string
  file_path :: string
  prompt_text :: string
  timestamp :: string
  llm_responses :: "(string \<times> llm_response) list"
  metrics :: "(string \<times> spooky_metric) list"
  zombie_status :: zombie_status
  revival_suggestions :: "revival_suggestion list"

record prompt_summary =
  s_prompt_id :: string
  s_file_path :: string
  s_prompt_text :: string
  s_timestamp :: string
  s_overall_score :: real
  s_is_zombie :: bool
  s_severity :: string
  s_total_cost :: real
  s_avg_latency :: real
  s_llm_count :: nat

record graveyard_stats =
  total_prompts :: nat
  zombie_count :: nat
  zombie_rate :: real
  avg_score :: real
  total_cost :: real
  avg_latency :: real
  revival_success_rate :: real
  severity_breakdown :: "(string \<times> nat) list"
  recent_activity :: "prompt_summary list"

datatype sort_order = Asc | Desc

record pagination_params =
  page :: int
  limit :: int
  sort_by :: "string option"
  sort_order :: "sort_order option"

text \<open>
  A score bound of a filter is a number that the controller obtained with \<open>parseFloat\<close>:
  it is NaN when the query parameter is empty or not numeric (\<open>?min_score=\<close>,
  \<open>?min_score=abc\<close>), and NaN is a defined value of the field.
\<close>

datatype js_number = NaN | Num real

record filter_params =
  f_is_zombie :: "bool option"
  f_severity :: "string option"
  min_score :: "js_number option"
  max_score :: "js_number option"
  date_from :: "string option"
  date_to :: "string option"
  llm_provider :: "string option"

datatype attempt_status = Pending | Success | Failed

record revival_attempt =
  a_revival_id :: string
  a_prompt_id :: string
  a_original_prompt :: string
  a_improved_prompt :: string
  a_suggestion_index :: int
  a_strategy :: string
  a_confidence_score :: real
  a_expected_improvements :: "(string \<times> real) list"
  a_timestamp :: string
  a_user_feedback :: "string option"
  a_status :: attempt_status

section \<open>The environment: two files, failing I/O, and the service's fields\<close>

text \<open>
  \<open>results.json\<close> is a JSONL file: each line is blank, parses to a record, or makes
  \<open>JSON.parse\<close> throw. \<open>revival_log.json\<close> is one JSON document: an array of attempts, or
  text that \<open>JSON.parse\<close> rejects. Either file may be absent (\<open>readFile\<close> then fails with
  code ENOENT). Any call of \<open>fs.readFile\<close> or \<open>fs.writeFile\<close> may also fail for a reason
  other than ENOENT (permissions, I/O): \<open>io_faults\<close> lists, for the upcoming calls in
  order, whether each one fails so; calls beyond the list do not fail. \<open>io_calls\<close> counts
  the calls made. \<open>cachedResults\<close> and \<open>lastCacheUpdate\<close> are the fields of
  GraveyardService; \<open>cacheTimeout\<close> is its constant.
\<close>

datatype results_line = BlankLine | JsonLine evaluation_result | BadLine

datatype results_source = NoResultsFile | ResultsFile "results_line list"

datatype ledger_source = NoLedgerFile | LedgerJson "revival_attempt list" | LedgerGarbage

datatype failure = ENOENT | IOError | SyntaxError | GraveyardAccessError

record world =
  results_file :: results_source
  revival_log_file :: ledger_source
  io_faults :: "bool list"
  io_calls :: nat
  cachedResults :: "evaluation_result list"
  lastCacheUpdate :: int

definition cacheTimeout :: int where
  "cacheTimeout = 30000"

definition next_fault :: "world \<Rightarrow> bool \<times> world" where
  "next_fault w =
     (case io_faults w of
        [] \<Rightarrow> (False, w\<lparr>io_calls := Suc (io_calls w)\<rparr>)
      | f # fs \<Rightarrow> (f, w\<lparr>io_faults := fs, io_calls := Suc (io_calls w)\<rparr>))"

definition readResultsFile :: "world \<Rightarrow> (failure + results_line list) \<times> world" where
  "readResultsFile w =
     (case next_fault w of (f, w') \<Rightarrow>
        if f then (Inl IOError, w')
        else (case results_file w' of
                NoResultsFile \<Rightarrow> (Inl ENOENT, w')
              | ResultsFile ls \<Rightarrow> (Inr ls, w')))"

section \<open>GraveyardService: the record cache\<close>

fun parse_lines :: "results_line list \<Rightarrow> failure + evaluation_result list" where
  "parse_lines [] = Inr []"
| "parse_lines (BlankLine # ls) = parse_lines ls"
| "parse_lines (BadLine # ls) = Inl SyntaxError"
| "parse_lines (JsonLine r # ls) =
     (case parse_lines ls of Inl e \<Rightarrow> Inl e | Inr rs \<Rightarrow> Inr (r # rs))"

text \<open>
  \<open>loadResultsFromFile\<close>: the lines are read, blank ones dropped, each parsed; the cache
  is assigned only after every line has parsed. ENOENT installs the empty list; any other
  exception is replaced by \<open>new Error('Failed to access the graveyard records')\<close>.
\<close>

definition loadResultsFromFile :: "world \<Rightarrow> (failure + unit) \<times> world" where
  "loadResultsFromFile w =
     (case readResultsFile w of
        (Inr ls, w') \<Rightarrow>
          (case parse_lines ls of
             Inr rs \<Rightarrow> (Inr (), w'\<lparr>cachedResults := rs\<rparr>)
           | Inl e \<Rightarrow> (Inl GraveyardAccessError, w'))
      | (Inl e, w') \<Rightarrow>
          if e = ENOENT then (Inr (), w'\<lparr>cachedResults := []\<rparr>)
          else (Inl GraveyardAccessError, w'))"

definition refreshCacheIfNeeded :: "int \<Rightarrow> world \<Rightarrow> (failure + unit) \<times> world" where
  "refreshCacheIfNeeded now w =
     (if now - lastCacheUpdate w > cacheTimeout then
        (case loadResultsFromFile w of
           (Inr u, w') \<Rightarrow> (Inr (), w'\<lparr>lastCacheUpdate := now\<rparr>)
         | (Inl e, w') \<Rightarrow> (Inl e, w'))
      else (Inr (), w))"

definition getAllResults :: "int \<Rightarrow> world \<Rightarrow> (failure + evaluation_result list) \<times> world" where
  "getAllResults now w =
     (case refreshCacheIfNeeded now w of
        (Inr u, w') \<Rightarrow> (Inr (cachedResults w'), w')
      | (Inl e, w') \<Rightarrow> (Inl e, w'))"

definition getResultById ::
  "int \<Rightarrow> string \<Rightarrow> world \<Rightarrow> (failure + evaluation_result option) \<times> world" where
  "getResultById now promptId w =
     (case getAllResults now w of
        (Inr results, w') \<Rightarrow> (Inr (find (\<lambda>result. prompt_id result = promptId) results), w')
      | (Inl e, w') \<Rightarrow> (Inl e, w'))"

section \<open>JavaScript array primitives\<close>

text \<open>
  \<open>Array.prototype.sort\<close> is stable; for a consistent comparator its result is the
  stable insertion sort below (for an inconsistent one the order is implementation
  defined, and this model picks the same insertion order). An element goes in front of
  the first later element it does not compare greater than.
\<close>

fun js_insert :: "('a \<Rightarrow> 'a \<Rightarrow> int) \<Rightarrow> 'a \<Rightarrow> 'a list \<Rightarrow> 'a list" where
  "js_insert cmp x [] = [x]"
| "js_insert cmp x (y # ys) = (if cmp x y \<le> 0 then x # y # ys else y # js_insert cmp x ys)"

fun js_sort :: "('a \<Rightarrow> 'a \<Rightarrow> int) \<Rightarrow> 'a list \<Rightarrow> 'a list" where
  "js_sort cmp [] = []"
| "js_sort cmp (x # xs) = js_insert cmp x (js_sort cmp xs)"

text \<open>
  \<open>xs.slice(start, stop)\<close> on integers: a negative bound counts from the end, both
  bounds are cut to the array, and an empty range gives the empty array.
\<close>

definition js_slice :: "'a list \<Rightarrow> int \<Rightarrow> int \<Rightarrow> 'a list" where
  "js_slice xs start stop =
     (let len = int (length xs);
          k = (if start < 0 then max (len + start) 0 else min start len);
          final = (if stop < 0 then max (len + stop) 0 else min stop len)
      in take (nat (final - k)) (drop (nat k) xs))"

text \<open>
  \<open>new Date(s).getTime()\<close> is a parameter \<open>getTime\<close> of the functions below: epoch
  milliseconds, or \<open>None\<close> for the NaN of an invalid date. A comparison with NaN is false.
\<close>

definition num_lt :: "int option \<Rightarrow> int option \<Rightarrow> bool" where
  "num_lt a b = (case a of None \<Rightarrow> False | Some x \<Rightarrow> (case b of None \<Rightarrow> False | Some y \<Rightarrow> x < y))"

section \<open>GraveyardService: filtering, sorting, paging, statistics\<close>

text \<open>
  \<open>applyFilters\<close>: one early \<open>return false\<close> per filter field, in the order of the source.
  \<open>is_zombie\<close>, \<open>min_score\<close> and \<open>max_score\<close> are tested against \<open>undefined\<close>; the string
  fields are tested for truthiness, so \<open>undefined\<close> and the empty string both skip the test.
  A comparison of a score with NaN is false, so a NaN bound rejects no record.
\<close>

definition applyFilters ::
  "(string \<Rightarrow> int option) \<Rightarrow> evaluation_result list \<Rightarrow> filter_params \<Rightarrow> evaluation_result list" where
  "applyFilters getTime results filters =
     filter (\<lambda>result.
       if (case f_is_zombie filters of None \<Rightarrow> False
           | Some z \<Rightarrow> is_zombie (zombie_status result) \<noteq> z) then False
       else if (case f_severity filters of None \<Rightarrow> False
           | Some s \<Rightarrow> s \<noteq> [] \<and> severity (zombie_status result) \<noteq> s) then False
       else if (case min_score filters of None \<Rightarrow> False
           | Some NaN \<Rightarrow> False
           | Some (Num m) \<Rightarrow> overall_score (zombie_status result) < m) then False
       else if (case max_score filters of None \<Rightarrow> False
           | Some NaN \<Rightarrow> False
           | Some (Num m) \<Rightarrow> overall_score (zombie_status result) > m) then False
       else if (case date_from filters of None \<Rightarrow> False
           | Some d \<Rightarrow> d \<noteq> [] \<and> num_lt (getTime (timestamp result)) (getTime d)) then False
       else if (case date_to filters of None \<Rightarrow> False
           | Some d \<Rightarrow> d \<noteq> [] \<and> num_lt (getTime d) (getTime (timestamp result))) then False
       else if (case llm_provider filters of None \<Rightarrow> False
           | Some p \<Rightarrow> p \<noteq> [] \<and> p \<notin> set (map fst (llm_responses result))) then False
       else True) results"

text \<open>The cost of a record: \<open>Object.values(r.llm_responses).reduce((sum, resp) => sum + (resp.cost_usd || 0), 0)\<close>.\<close>

definition totalCostOf :: "evaluation_result \<Rightarrow> real" where
  "totalCostOf result =
     foldl (\<lambda>sum resp. sum + (case cost_usd resp of None \<Rightarrow> 0 | Some c \<Rightarrow> c)) 0
       (map snd (llm_responses result))"

text \<open>The body of the outer \<open>reduce\<close> of \<open>calculateAverageLatency\<close>: one record's \<open>avgLatency\<close>.\<close>

definition avgLatencyOf :: "evaluation_result \<Rightarrow> real" where
  "avgLatencyOf result =
     (let responseLatencies = List.map_filter latency_ms (map snd (llm_responses result))
      in if length responseLatencies > 0
         then foldl (\<lambda>a b. a + b) 0 responseLatencies / real (length responseLatencies)
         else 0)"

definition calculateAverageLatency :: "evaluation_result list \<Rightarrow> real" where
  "calculateAverageLatency results =
     (if length results = 0 then 0
      else foldl (\<lambda>sum result. sum + avgLatencyOf result) 0 results / real (length results))"

text \<open>
  The comparator of \<open>sortResults\<close>. \<open>sortValues\<close> is the \<open>switch\<close>: the two values compared
  (\<open>None\<close> inside is NaN, possible for a timestamp only), or \<open>None\<close> for the \<open>default\<close>
  branch, which returns 0 at once.
\<close>

definition sortValues ::
  "(string \<Rightarrow> int option) \<Rightarrow> string \<Rightarrow> evaluation_result \<Rightarrow> evaluation_result
     \<Rightarrow> (real option \<times> real option) option" where
  "sortValues getTime sortBy a b =
     (if sortBy = ''score'' then
        Some (Some (overall_score (zombie_status a)), Some (overall_score (zombie_status b)))
      else if sortBy = ''timestamp'' then
        Some (map_option real_of_int (getTime (timestamp a)),
              map_option real_of_int (getTime (timestamp b)))
      else if sortBy = ''cost'' then Some (Some (totalCostOf a), Some (totalCostOf b))
      else if sortBy = ''latency'' then
        Some (Some (calculateAverageLatency [a]), Some (calculateAverageLatency [b]))
      else None)"

definition val_lt :: "real option \<Rightarrow> real option \<Rightarrow> bool" where
  "val_lt a b = (case a of None \<Rightarrow> False | Some x \<Rightarrow> (case b of None \<Rightarrow> False | Some y \<Rightarrow> x < y))"

definition compareResults ::
  "(string \<Rightarrow> int option) \<Rightarrow> string \<Rightarrow> sort_order \<Rightarrow> evaluation_result \<Rightarrow> evaluation_result \<Rightarrow> int" where
  "compareResults getTime sortBy ord a b =
     (case sortValues getTime sortBy a b of
        None \<Rightarrow> 0
      | Some (aValue, bValue) \<Rightarrow>
          if ord = Asc
          then (if val_lt aValue bValue then - 1 else if val_lt bValue aValue then 1 else 0)
          else (if val_lt bValue aValue then - 1 else if val_lt aValue bValue then 1 else 0))"

definition sortResults ::
  "(string \<Rightarrow> int option) \<Rightarrow> evaluation_result list \<Rightarrow> string \<Rightarrow> sort_order \<Rightarrow> evaluation_result list" where
  "sortResults getTime results sortBy ord = js_sort (compareResults getTime sortBy ord) results"

definition mapToPromptSummary :: "evaluation_result \<Rightarrow> prompt_summary" where
  "mapToPromptSummary result =
     \<lparr>s_prompt_id = prompt_id result,
      s_file_path = file_path result,
      s_prompt_text = prompt_text result,
      s_timestamp = timestamp result,
      s_overall_score = overall_score (zombie_status result),
      s_is_zombie = is_zombie (zombie_status result),
      s_severity = severity (zombie_status result),
      s_total_cost = totalCostOf result,
      s_avg_latency = calculateAverageLatency [result],
      s_llm_count = length (map fst (llm_responses result))\<rparr>"

record zombie_page =
  z_zombies :: "prompt_summary list"
  z_total :: nat
  z_page :: int
  z_totalPages :: "int option"

text \<open>
  \<open>getZombiePrompts\<close> after its \<open>await this.getAllResults()\<close>, in the three steps of the
  source: the zombie filter and \<open>applyFilters\<close>; the sort; the slice. \<open>z_totalPages\<close> is
  \<open>Math.ceil(total / limit)\<close>, \<open>None\<close> when the limit is 0 (Infinity or NaN in the source).
\<close>

definition filteredZombies ::
  "(string \<Rightarrow> int option) \<Rightarrow> evaluation_result list \<Rightarrow> filter_params option
     \<Rightarrow> evaluation_result list" where
  "filteredZombies getTime results filters =
     (let zombies = filter (\<lambda>r. is_zombie (zombie_status r)) results
      in case filters of None \<Rightarrow> zombies | Some fs \<Rightarrow> applyFilters getTime zombies fs)"

definition sortedZombies ::
  "(string \<Rightarrow> int option) \<Rightarrow> evaluation_result list \<Rightarrow> pagination_params
     \<Rightarrow> evaluation_result list" where
  "sortedZombies getTime zombies pg =
     (case sort_by pg of
        None \<Rightarrow> zombies
      | Some sb \<Rightarrow>
          if sb \<noteq> []
          then sortResults getTime zombies sb (case sort_order pg of None \<Rightarrow> Desc | Some ord \<Rightarrow> ord)
          else zombies)"

definition zombiePromptsOf ::
  "(string \<Rightarrow> int option) \<Rightarrow> evaluation_result list \<Rightarrow> filter_params option
     \<Rightarrow> pagination_params option \<Rightarrow> zombie_page" where
  "zombiePromptsOf getTime results filters pagination =
     (let zombies = filteredZombies getTime results filters;
          total = length zombies;
          paged =
            (case pagination of
               None \<Rightarrow> zombies
             | Some pg \<Rightarrow>
                 (let startIndex = (page pg - 1) * limit pg
                  in js_slice (sortedZombies getTime zombies pg) startIndex (startIndex + limit pg)))
      in \<lparr>z_zombies = map mapToPromptSummary paged,
          z_total = total,
          z_page = (case pagination of None \<Rightarrow> 1
                    | Some pg \<Rightarrow> if page pg = 0 then 1 else page pg),
          z_totalPages = (case pagination of None \<Rightarrow> Some 1
                    | Some pg \<Rightarrow> if limit pg = 0 then None
                                else Some \<lceil>real total / real_of_int (limit pg)\<rceil>)\<rparr>)"

definition getZombiePrompts ::
  "(string \<Rightarrow> int option) \<Rightarrow> int \<Rightarrow> filter_params option \<Rightarrow> pagination_params option
     \<Rightarrow> world \<Rightarrow> (failure + zombie_page) \<times> world" where
  "getZombiePrompts getTime now filters pagination w =
     (case getAllResults now w of
        (Inr results, w') \<Rightarrow> (Inr (zombiePromptsOf getTime results filters pagination), w')
      | (Inl e, w') \<Rightarrow> (Inl e, w'))"

text \<open>
  \<open>parsePagination\<close> (the same text in PromptsController and ResultsController). The
  query is given with \<open>parseInt\<close> already applied to \<open>query.page\<close> and \<open>query.limit\<close>:
  \<open>None\<close> is NaN, which \<open>parseInt\<close> gives for a missing or non-numeric parameter.
  \<open>n || d\<close> takes \<open>d\<close> when \<open>n\<close> is NaN or 0.
\<close>

record query =
  page_parsed :: "int option"
  limit_parsed :: "int option"
  q_sort_by :: "string option"
  q_sort_order :: "string option"

definition or_default :: "int option \<Rightarrow> int \<Rightarrow> int" where
  "or_default n d = (case n of None \<Rightarrow> d | Some v \<Rightarrow> if v = 0 then d else v)"

definition parsePagination :: "query \<Rightarrow> pagination_params" where
  "parsePagination q =
     \<lparr>page = or_default (page_parsed q) 1,
      limit = min (or_default (limit_parsed q) 20) 100,
      sort_by = Some (case q_sort_by q of None \<Rightarrow> ''timestamp''
                      | Some s \<Rightarrow> if s \<noteq> [] then s else ''timestamp''),
      sort_order = Some (if q_sort_order q = Some ''asc'' then Asc else Desc)\<rparr>"

text \<open>\<open>acc[k] = (acc[k] || 0) + 1\<close> on an object used as a counter table.\<close>

fun bump :: "string \<Rightarrow> (string \<times> nat) list \<Rightarrow> (string \<times> nat) list" where
  "bump k [] = [(k, 1)]"
| "bump k ((k', n) # kvs) = (if k = k' then (k', n + 1) # kvs else (k', n) # bump k kvs)"

text \<open>
  The comparator \<open>(a, b) => new Date(b.timestamp).getTime() - new Date(a.timestamp).getTime()\<close>
  on two timestamp strings; a NaN result counts as 0 in \<open>sort\<close>.
\<close>

definition newestFirst :: "(string \<Rightarrow> int option) \<Rightarrow> string \<Rightarrow> string \<Rightarrow> int" where
  "newestFirst getTime ta tb =
     (case getTime tb of None \<Rightarrow> 0
      | Some y \<Rightarrow> (case getTime ta of None \<Rightarrow> 0 | Some x \<Rightarrow> y - x))"

definition calculateRevivalSuccessRate :: "evaluation_result list \<Rightarrow> real" where
  "calculateRevivalSuccessRate results =
     (let zombiesWithSuggestions =
            filter (\<lambda>r. is_zombie (zombie_status r) \<and> length (revival_suggestions r) > 0) results
      in if length zombiesWithSuggestions > 0 then 0.65 else 0)"

definition getEmptyStats :: graveyard_stats where
  "getEmptyStats =
     \<lparr>total_prompts = 0, zombie_count = 0, zombie_rate = 0, avg_score = 0, total_cost = 0,
      avg_latency = 0, revival_success_rate = 0, severity_breakdown = [], recent_activity = []\<rparr>"

text \<open>\<open>getGraveyardStats\<close> after its \<open>await this.getAllResults()\<close>.\<close>

definition graveyardStatsOf :: "(string \<Rightarrow> int option) \<Rightarrow> evaluation_result list \<Rightarrow> graveyard_stats" where
  "graveyardStatsOf getTime results =
     (if length results = 0 then getEmptyStats
      else
        (let zombieResults = filter (\<lambda>r. is_zombie (zombie_status r)) results;
             totalCost = foldl (\<lambda>sum r. sum + totalCostOf r) 0 results;
             avgLatency = calculateAverageLatency results;
             avgScore = foldl (\<lambda>sum r. sum + overall_score (zombie_status r)) 0 results
                          / real (length results);
             severityBreakdown =
               foldl (\<lambda>acc result. bump (severity (zombie_status result)) acc) [] zombieResults;
             recentActivity =
               map mapToPromptSummary
                 (js_slice (js_sort (\<lambda>a b. newestFirst getTime (timestamp a) (timestamp b)) results) 0 10)
         in \<lparr>total_prompts = length results,
             zombie_count = length zombieResults,
             zombie_rate = real (length zombieResults) / real (length results),
             avg_score = avgScore,
             total_cost = totalCost,
             avg_latency = avgLatency,
             revival_success_rate = calculateRevivalSuccessRate results,
             severity_breakdown = severityBreakdown,
             recent_activity = recentActivity\<rparr>))"

definition getGraveyardStats ::
  "(string \<Rightarrow> int option) \<Rightarrow> int \<Rightarrow> world \<Rightarrow> (failure + graveyard_stats) \<times> world" where
  "getGraveyardStats getTime now w =
     (case getAllResults now w of
        (Inr results, w') \<Rightarrow> (Inr (graveyardStatsOf getTime results), w')
      | (Inl e, w') \<Rightarrow> (Inl e, w'))"

section \<open>RevivalService: the ledger of revival attempts\<close>

record revival_request =
  rq_prompt_id :: string
  rq_suggestion_index :: int
  rq_user_feedback :: "string option"

text \<open>
  The \<open>message\<close> of a response, one constructor per message text of \<open>revivePrompt\<close>, in
  the order of the source: prompt not found; already alive; suggestion \<open>i\<close> not found;
  ritual successful with strategy \<open>s\<close>; ritual failed; interrupted by dark forces.
\<close>

datatype message =
  PromptNotFound | AlreadyAlive | SuggestionNotFound int
  | RitualSuccessful string | RitualFailed | Interrupted

record revival_response =
  r_success :: bool
  r_message :: message
  r_original_prompt :: string
  r_improved_prompt :: string
  r_expected_improvements :: "(string \<times> real) list"
  r_revival_id :: string

record revival_stats =
  total_attempts :: nat
  successful_revivals :: nat
  success_rate :: real
  most_successful_strategy :: string
  recent_revivals :: "revival_attempt list"

text \<open>\<open>xs[i]\<close>: \<open>undefined\<close> outside the array.\<close>

definition js_index :: "'a list \<Rightarrow> int \<Rightarrow> 'a option" where
  "js_index xs i = (if 0 \<le> i \<and> i < int (length xs) then Some (xs ! nat i) else None)"

text \<open>\<open>xs.findIndex(p)\<close>, \<open>None\<close> for \<open>-1\<close>.\<close>

fun findIndex :: "('a \<Rightarrow> bool) \<Rightarrow> 'a list \<Rightarrow> nat option" where
  "findIndex p [] = None"
| "findIndex p (x # xs) = (if p x then Some 0 else map_option Suc (findIndex p xs))"

definition loadRevivalLog :: "world \<Rightarrow> (failure + revival_attempt list) \<times> world" where
  "loadRevivalLog w =
     (case next_fault w of (f, w') \<Rightarrow>
        if f then (Inl IOError, w')
        else (case revival_log_file w' of
                NoLedgerFile \<Rightarrow> (Inr [], w')
              | LedgerGarbage \<Rightarrow> (Inl SyntaxError, w')
              | LedgerJson revivalLog \<Rightarrow> (Inr revivalLog, w')))"

text \<open>\<open>fs.writeFile(this.revivalLogPath, JSON.stringify(revivalLog, null, 2), 'utf-8')\<close>.\<close>

definition writeRevivalLog :: "revival_attempt list \<Rightarrow> world \<Rightarrow> (failure + unit) \<times> world" where
  "writeRevivalLog revivalLog w =
     (case next_fault w of (f, w') \<Rightarrow>
        if f then (Inl IOError, w')
        else (Inr (), w'\<lparr>revival_log_file := LedgerJson revivalLog\<rparr>))"

definition logRevivalAttempt :: "revival_attempt \<Rightarrow> world \<Rightarrow> (failure + unit) \<times> world" where
  "logRevivalAttempt attempt w =
     (case loadRevivalLog w of
        (Inr revivalLog, w') \<Rightarrow> writeRevivalLog (revivalLog @ [attempt]) w'
      | (Inl e, w') \<Rightarrow> (Inl e, w'))"

text \<open>\<open>updateRevivalStatus\<close> catches every exception and only logs it: it returns in all cases.\<close>

definition updateRevivalStatus :: "string \<Rightarrow> attempt_status \<Rightarrow> world \<Rightarrow> world" where
  "updateRevivalStatus revivalId status w =
     (case loadRevivalLog w of
        (Inr revivalLog, w') \<Rightarrow>
          (case findIndex (\<lambda>attempt. a_revival_id attempt = revivalId) revivalLog of
             Some attemptIndex \<Rightarrow>
               snd (writeRevivalLog
                      (revivalLog[attemptIndex := (revivalLog ! attemptIndex)\<lparr>a_status := status\<rparr>]) w')
           | None \<Rightarrow> w')
      | (Inl e, w') \<Rightarrow> w')"

definition failureResponse :: "message \<Rightarrow> string \<Rightarrow> revival_response" where
  "failureResponse msg original =
     \<lparr>r_success = False, r_message = msg, r_original_prompt = original,
      r_improved_prompt = [], r_expected_improvements = [], r_revival_id = []\<rparr>"

text \<open>The attempt record that \<open>revivePrompt\<close> creates, with status \<open>'pending'\<close>.\<close>

definition pendingAttempt ::
  "string \<Rightarrow> string \<Rightarrow> revival_request \<Rightarrow> evaluation_result \<Rightarrow> revival_suggestion \<Rightarrow> revival_attempt" where
  "pendingAttempt uuid nowIso request zombieResult suggestion =
     \<lparr>a_revival_id = uuid,
      a_prompt_id = rq_prompt_id request,
      a_original_prompt = prompt_text zombieResult,
      a_improved_prompt = improved_prompt suggestion,
      a_suggestion_index = rq_suggestion_index request,
      a_strategy = strategy suggestion,
      a_confidence_score = confidence_score suggestion,
      a_expected_improvements = expected_improvements suggestion,
      a_timestamp = nowIso,
      a_user_feedback = rq_user_feedback request,
      a_status = Pending\<rparr>"

text \<open>
  \<open>revivePrompt\<close>. \<open>now\<close> is the \<open>Date.now()\<close> of the cache check, \<open>nowIso\<close> the
  \<open>new Date().toISOString()\<close> and \<open>uuid\<close> the \<open>uuidv4()\<close> of the attempt. The outer
  \<open>try/catch\<close> turns an exception of \<open>getResultById\<close> or of \<open>logRevivalAttempt\<close> into the
  "interrupted" response.
\<close>

definition revivePrompt ::
  "int \<Rightarrow> string \<Rightarrow> string \<Rightarrow> revival_request \<Rightarrow> world \<Rightarrow> revival_response \<times> world" where
  "revivePrompt now nowIso uuid request w =
     (case getResultById now (rq_prompt_id request) w of
        (Inl e, w1) \<Rightarrow> (failureResponse Interrupted [], w1)
      | (Inr None, w1) \<Rightarrow> (failureResponse PromptNotFound [], w1)
      | (Inr (Some zombieResult), w1) \<Rightarrow>
          if \<not> is_zombie (zombie_status zombieResult)
          then (failureResponse AlreadyAlive (prompt_text zombieResult), w1)
          else
            (case js_index (revival_suggestions zombieResult) (rq_suggestion_index request) of
               None \<Rightarrow>
                 (failureResponse (SuggestionNotFound (rq_suggestion_index request))
                    (prompt_text zombieResult), w1)
             | Some suggestion \<Rightarrow>
                 (let revivalAttempt = pendingAttempt uuid nowIso request zombieResult suggestion
                  in case logRevivalAttempt revivalAttempt w1 of
                       (Inl e, w2) \<Rightarrow> (failureResponse Interrupted [], w2)
                     | (Inr u, w2) \<Rightarrow>
                         (let simulatedSuccess = confidence_score suggestion > 0.6;
                              w3 = updateRevivalStatus uuid
                                     (if simulatedSuccess then Success else Failed) w2
                          in (\<lparr>r_success = simulatedSuccess,
                               r_message = (if simulatedSuccess
                                            then RitualSuccessful (strategy suggestion)
                                            else RitualFailed),
                               r_original_prompt = prompt_text zombieResult,
                               r_improved_prompt = improved_prompt suggestion,
                               r_expected_improvements = expected_improvements suggestion,
                               r_revival_id = uuid\<rparr>, w3)))))"

text \<open>
  \<open>getRevivalHistory\<close> and \<open>getRevivalStats\<close> return a promise, so their result type has
  room for a rejection (\<open>Inl\<close>); their own \<open>try/catch\<close> decides what comes out.
\<close>

definition getRevivalHistory :: "string \<Rightarrow> world \<Rightarrow> (failure + revival_attempt list) \<times> world" where
  "getRevivalHistory promptId w =
     (case loadRevivalLog w of
        (Inr revivalLog, w') \<Rightarrow> (Inr (filter (\<lambda>attempt. a_prompt_id attempt = promptId) revivalLog), w')
      | (Inl e, w') \<Rightarrow> (Inr [], w'))"

definition emptyRevivalStats :: revival_stats where
  "emptyRevivalStats =
     \<lparr>total_attempts = 0, successful_revivals = 0, success_rate = 0,
      most_successful_strategy = ''none'', recent_revivals = []\<rparr>"

text \<open>
  \<open>Object.entries(strategyStats).sort(([,a], [,b]) => b - a)[0]?.[0] || 'none'\<close>: the
  first strategy by descending count, \<open>'none'\<close> when there is none or its name is empty.
\<close>

definition mostSuccessfulStrategyOf :: "(string \<times> nat) list \<Rightarrow> string" where
  "mostSuccessfulStrategyOf strategyStats =
     (case js_sort (\<lambda>x y. int (snd y) - int (snd x)) strategyStats of
        [] \<Rightarrow> ''none''
      | (k, n) # rest \<Rightarrow> if k \<noteq> [] then k else ''none'')"

definition getRevivalStats ::
  "(string \<Rightarrow> int option) \<Rightarrow> world \<Rightarrow> (failure + revival_stats) \<times> world" where
  "getRevivalStats getTime w =
     (case loadRevivalLog w of
        (Inr revivalLog, w') \<Rightarrow>
          (let totalAttempts = length revivalLog;
               successfulRevivals = length (filter (\<lambda>attempt. a_status attempt = Success) revivalLog);
               successRate = (if totalAttempts > 0
                              then real successfulRevivals / real totalAttempts else 0);
               strategyStats =
                 foldl (\<lambda>acc attempt. if a_status attempt = Success
                                        then bump (a_strategy attempt) acc else acc) [] revivalLog;
               recentRevivals =
                 js_slice (js_sort (\<lambda>a b. newestFirst getTime (a_timestamp a) (a_timestamp b))
                             revivalLog) 0 10
           in (Inr \<lparr>total_attempts = totalAttempts,
                    successful_revivals = successfulRevivals,
                    success_rate = successRate,
                    most_successful_strategy = mostSuccessfulStrategyOf strategyStats,
                    recent_revivals = recentRevivals\<rparr>, w'))
      | (Inl e, w') \<Rightarrow> (Inr emptyRevivalStats, w'))"

section \<open>Vocabulary of the properties\<close>

text \<open>\<open>fault_free n w\<close>: none of the next \<open>n\<close> file-system calls fails for a reason other than ENOENT.\<close>

definition fault_free :: "nat \<Rightarrow> world \<Rightarrow> bool" where
  "fault_free n w = (True \<notin> set (take n (io_faults w)))"

text \<open>The attempts a ledger file holds; a missing file holds none.\<close>

definition ledger_entries :: "world \<Rightarrow> revival_attempt list" where
  "ledger_entries w = (case revival_log_file w of LedgerJson revivalLog \<Rightarrow> revivalLog | _ \<Rightarrow> [])"

text \<open>The two halves of \<open>next_fault\<close>: whether the next call fails, and the world after it.\<close>

definition next_fails :: "world \<Rightarrow> bool" where
  "next_fails w = (case io_faults w of [] \<Rightarrow> False | f # fs \<Rightarrow> f)"

definition after_call :: "world \<Rightarrow> world" where
  "after_call w = w\<lparr>io_faults := tl (io_faults w), io_calls := Suc (io_calls w)\<rparr>"

text \<open>
  The calls a client can make that touch the ledger or the cache, and a run of them in
  sequence; \<open>uses_uuid\<close> tells whether a call is a revival whose \<open>uuidv4()\<close> gave the
  identifier in question.
\<close>

datatype service_call =
  Revive int string string revival_request | History string | Stats | GetAll int

fun perform :: "(string \<Rightarrow> int option) \<Rightarrow> service_call \<Rightarrow> world \<Rightarrow> world" where
  "perform getTime (Revive now nowIso uuid request) w = snd (revivePrompt now nowIso uuid request w)"
| "perform getTime (History promptId) w = snd (getRevivalHistory promptId w)"
| "perform getTime Stats w = snd (getRevivalStats getTime w)"
| "perform getTime (GetAll now) w = snd (getAllResults now w)"

fun perform_all :: "(string \<Rightarrow> int option) \<Rightarrow> service_call list \<Rightarrow> world \<Rightarrow> world" where
  "perform_all getTime [] w = w"
| "perform_all getTime (c # cs) w = perform_all getTime cs (perform getTime c w)"

fun uses_uuid :: "string \<Rightarrow> service_call \<Rightarrow> bool" where
  "uses_uuid u (Revive now nowIso uuid request) = (uuid = u)"
| "uses_uuid u c = False"

text \<open>
  The filter as the specification words it: a conjunction of the supplied predicates, an
  absent one being no constraint. The score and date ranges are inclusive. A field is
  supplied when it is defined and, for the string fields, not empty, and, for the score
  bounds, not NaN; a date bound constrains a record when both dates are valid.
\<close>

definition spec_in_range :: "int option \<Rightarrow> int option \<Rightarrow> bool" where
  "spec_in_range lo hi = (case lo of None \<Rightarrow> True | Some l \<Rightarrow> (case hi of None \<Rightarrow> True | Some h \<Rightarrow> l \<le> h))"

definition spec_matches :: "(string \<Rightarrow> int option) \<Rightarrow> filter_params \<Rightarrow> evaluation_result \<Rightarrow> bool" where
  "spec_matches getTime fs r =
     ((case f_is_zombie fs of None \<Rightarrow> True | Some z \<Rightarrow> is_zombie (zombie_status r) = z)
      \<and> (case f_severity fs of None \<Rightarrow> True | Some s \<Rightarrow> s = [] \<or> severity (zombie_status r) = s)
      \<and> (case min_score fs of None \<Rightarrow> True | Some NaN \<Rightarrow> True
          | Some (Num m) \<Rightarrow> m \<le> overall_score (zombie_status r))
      \<and> (case max_score fs of None \<Rightarrow> True | Some NaN \<Rightarrow> True
          | Some (Num m) \<Rightarrow> overall_score (zombie_status r) \<le> m)
      \<and> (case date_from fs of None \<Rightarrow> True
          | Some d \<Rightarrow> d = [] \<or> spec_in_range (getTime d) (getTime (timestamp r)))
      \<and> (case date_to fs of None \<Rightarrow> True
          | Some d \<Rightarrow> d = [] \<or> spec_in_range (getTime (timestamp r)) (getTime d))
      \<and> (case llm_provider fs of None \<Rightarrow> True
          | Some p \<Rightarrow> p = [] \<or> p \<in> fst ` set (llm_responses r)))"

definition spec_matches_opt ::
  "(string \<Rightarrow> int option) \<Rightarrow> filter_params option \<Rightarrow> evaluation_result \<Rightarrow> bool" where
  "spec_matches_opt getTime filters r =
     (case filters of None \<Rightarrow> True | Some fs \<Rightarrow> spec_matches getTime fs r)"

text \<open>
  The two averages of latency as the specification words them: a record's own mean over
  the latencies its providers reported (0 when none did), the mean of those means across
  the records, and, for contrast, the flat mean of every reported latency.
\<close>

definition reported_latencies :: "evaluation_result \<Rightarrow> real list" where
  "reported_latencies r = concat (map (\<lambda>(name, resp). case latency_ms resp of None \<Rightarrow> [] | Some l \<Rightarrow> [l]) (llm_responses r))"

definition spec_record_mean :: "evaluation_result \<Rightarrow> real" where
  "spec_record_mean r =
     (if reported_latencies r = [] then 0
      else sum_list (reported_latencies r) / real (length (reported_latencies r)))"

definition spec_two_level_mean :: "evaluation_result list \<Rightarrow> real" where
  "spec_two_level_mean rs = sum_list (map spec_record_mean rs) / real (length rs)"

definition spec_flat_mean :: "evaluation_result list \<Rightarrow> real" where
  "spec_flat_mean rs =
     sum_list (concat (map reported_latencies rs)) / real (length (concat (map reported_latencies rs)))"

section \<open>Example data\<close>

definition clock :: "string \<Rightarrow> int option" where
  "clock s = (if s = ''2024-01-01T00:00:00.000Z'' then Some 1704067200000
              else if s = ''2024-01-02T00:00:00.000Z'' then Some 1704153600000
              else None)"

definition answer :: "real \<Rightarrow> llm_response" where
  "answer l = \<lparr>response = Some ''ok'', latency_ms = Some l, cost_usd = Some 0.01,
               resp_timestamp = ''2024-01-01T00:00:00.000Z'', model = None, error = None\<rparr>"

definition strongFix :: revival_suggestion where
  "strongFix = \<lparr>improved_prompt = ''Explain the task step by step'', strategy = ''clarity'',
                technique = ''rewrite'', reasoning = ''too vague'', confidence_score = 0.75,
                expected_improvements = [(''clarity'', 0.2)]\<rparr>"

definition weakFix :: revival_suggestion where
  "weakFix = \<lparr>improved_prompt = ''Add an example'', strategy = ''examples'',
              technique = ''few-shot'', reasoning = ''no example'', confidence_score = 0.4,
              expected_improvements = []\<rparr>"

definition shambler :: evaluation_result where
  "shambler =
     \<lparr>prompt_id = ''p1'', file_path = ''prompts/a.txt'', prompt_text = ''do it'',
      timestamp = ''2024-01-01T00:00:00.000Z'',
      llm_responses = [(''openai'', answer 100)],
      metrics = [],
      zombie_status = \<lparr>is_zombie = True, overall_score = 0.57, severity = ''shambling_zombie'',
                       visual_theme = ''fog'', revival_priority = ''low'',
                       failed_critical_metrics = [], reason = ''weak''\<rparr>,
      revival_suggestions = [strongFix, weakFix]\<rparr>"

definition survivor :: evaluation_result where
  "survivor =
     \<lparr>prompt_id = ''p2'', file_path = ''prompts/b.txt'', prompt_text = ''write a haiku on autumn'',
      timestamp = ''2024-01-02T00:00:00.000Z'',
      llm_responses = [(''openai'', answer 200), (''anthropic'', answer 400)],
      metrics = [],
      zombie_status = \<lparr>is_zombie = False, overall_score = 0.71, severity = ''alive'',
                       visual_theme = ''sun'', revival_priority = ''low'',
                       failed_critical_metrics = [], reason = ''fine''\<rparr>,
      revival_suggestions = []\<rparr>"

text \<open>A service whose cache was filled at time 1000 from a two-line log; no ledger file yet.\<close>

definition calmWorld :: world where
  "calmWorld =
     \<lparr>results_file = ResultsFile [JsonLine shambler, JsonLine survivor],
      revival_log_file = NoLedgerFile,
      io_faults = [],
      io_calls = 0,
      cachedResults = [shambler, survivor],
      lastCacheUpdate = 1000\<rparr>"

definition noFilters :: filter_params where
  "noFilters = \<lparr>f_is_zombie = None, f_severity = None, min_score = None, max_score = None,
                date_from = None, date_to = None, llm_provider = None\<rparr>"

text \<open>
  A query with every predicate supplied: \<open>?is_zombie=true&severity=shambling_zombie\<close>
  \<open>&min_score=0.5&max_score=abc&date_from=2024-01-01T00:00:00.000Z&date_to=soon\<close>
  \<open>&llm_provider=openai\<close>, where \<open>max_score\<close> parses to NaN and \<open>date_to\<close> is no date;
  the same with \<open>min_score=0.6\<close>; and \<open>?min_score=abc\<close> alone.
\<close>

definition shamblingFilters :: filter_params where
  "shamblingFilters =
     \<lparr>f_is_zombie = Some True, f_severity = Some ''shambling_zombie'',
      min_score = Some (Num 0.5), max_score = Some NaN,
      date_from = Some ''2024-01-01T00:00:00.000Z'', date_to = Some ''soon'',
      llm_provider = Some ''openai''\<rparr>"

definition strictFilters :: filter_params where
  "strictFilters = shamblingFilters\<lparr>min_score := Some (Num 0.6)\<rparr>"

definition nanFilters :: filter_params where
  "nanFilters = noFilters\<lparr>min_score := Some NaN\<rparr>"

definition defaultQuery :: query where
  "defaultQuery = \<lparr>page_parsed = None, limit_parsed = None, q_sort_by = None, q_sort_order = None\<rparr>"




definition reviveRequest :: "int \<Rightarrow> revival_request" where
  "reviveRequest i = \<lparr>rq_prompt_id = ''p1'', rq_suggestion_index = i, rq_user_feedback = None\<rparr>"

text \<open>Variations: the results log is gone; its second line is not JSON; the ledger is not JSON.\<close>

definition missingWorld :: world where
  "missingWorld = calmWorld\<lparr>results_file := NoResultsFile\<rparr>"

definition brokenWorld :: world where
  "brokenWorld = calmWorld\<lparr>results_file := ResultsFile [JsonLine shambler, BadLine]\<rparr>"

definition garbledLedgerWorld :: world where
  "garbledLedgerWorld = calmWorld\<lparr>revival_log_file := LedgerGarbage\<rparr>"

text \<open>The third file-system call to come fails: the read inside \<open>updateRevivalStatus\<close>.\<close>

definition flakyWorld :: world where
  "flakyWorld = calmWorld\<lparr>io_faults := [False, False, True]\<rparr>"

definition survivorRequest :: revival_request where
  "survivorRequest = \<lparr>rq_prompt_id = ''p2'', rq_suggestion_index = 0, rq_user_feedback = None\<rparr>"

section \<open>Auxiliary facts\<close>

lemma foldl_plus_sum_list: "foldl (\<lambda>a b. a + b) (a::real) xs = a + sum_list xs"
  by (induction xs arbitrary: a) auto

lemma foldl_plus_map_sum_list: "foldl (\<lambda>s r. s + f r) (a::real) xs = a + sum_list (map f xs)"
  by (induction xs arbitrary: a) auto

lemma js_insert_all_equal: "(\<And>a b. cmp a b = 0) \<Longrightarrow> js_insert cmp x ys = x # ys"
  by (cases ys) auto

lemma js_sort_all_equal: "(\<And>a b. cmp a b = 0) \<Longrightarrow> js_sort cmp xs = xs"
  by (induction xs) (auto simp: js_insert_all_equal)

lemma getAllResults_fresh:
  "now - lastCacheUpdate w \<le> cacheTimeout \<Longrightarrow> getAllResults now w = (Inr (cachedResults w), w)"
  by (simp add: getAllResults_def refreshCacheIfNeeded_def)

section \<open>RecordStore: the staleness window\<close>

text \<open>
  Claim C4. When the cached snapshot is not older than the 30-second staleness window at
  both calls, two successive calls of \<open>getAllResults\<close> return the same sequence of records
  (the cached one, in its order), and neither call refreshes: the service and the file
  system are left as they were, and no file-system call is made.
\<close>

theorem getAllResults_twice_within_window:
  assumes "now1 - lastCacheUpdate w \<le> cacheTimeout"
      and "now2 - lastCacheUpdate w \<le> cacheTimeout"
  shows "fst (getAllResults now1 w) = Inr (cachedResults w)
       \<and> fst (getAllResults now2 (snd (getAllResults now1 w))) = fst (getAllResults now1 w)
       \<and> snd (getAllResults now2 (snd (getAllResults now1 w))) = w
       \<and> io_calls (snd (getAllResults now2 (snd (getAllResults now1 w)))) = io_calls w"
  using assms by (simp add: getAllResults_fresh)

theorem getAllResults_twice_within_window_witness:
  "2000 - lastCacheUpdate calmWorld \<le> cacheTimeout
   \<and> 31000 - lastCacheUpdate calmWorld \<le> cacheTimeout
   \<and> fst (getAllResults 2000 calmWorld) = Inr [shambler, survivor]
   \<and> fst (getAllResults 31000 (snd (getAllResults 2000 calmWorld))) = Inr [shambler, survivor]
   \<and> io_calls (snd (getAllResults 31000 (snd (getAllResults 2000 calmWorld)))) = 0"
proof -
  have a: "2000 - lastCacheUpdate calmWorld \<le> cacheTimeout"
    by (simp add: calmWorld_def cacheTimeout_def)
  have b: "31000 - lastCacheUpdate calmWorld \<le> cacheTimeout"
    by (simp add: calmWorld_def cacheTimeout_def)
  have c: "cachedResults calmWorld = [shambler, survivor]" "io_calls calmWorld = 0"
    by (simp_all add: calmWorld_def)
  show ?thesis
    using getAllResults_twice_within_window [OF a b] a b c by simp
qed

section \<open>RecordStore: a refresh that fails\<close>

lemma parse_lines_bad: "BadLine \<in> set ls \<Longrightarrow> parse_lines ls = Inl SyntaxError"
  by (induction ls rule: parse_lines.induct) auto

lemma getAllResults_stale_missing:
  assumes "now - lastCacheUpdate w > cacheTimeout" "results_file w = NoResultsFile" "fault_free 1 w"
  shows "fst (getAllResults now w) = Inr []"
    and "cachedResults (snd (getAllResults now w)) = []"
    and "lastCacheUpdate (snd (getAllResults now w)) = now"
  using assms
  by (auto simp: getAllResults_def refreshCacheIfNeeded_def loadResultsFromFile_def
      readResultsFile_def next_fault_def fault_free_def split: list.splits)

lemma getAllResults_stale_failing:
  assumes "now - lastCacheUpdate w > cacheTimeout"
    and "\<not> fault_free 1 w \<or> (\<exists>ls. results_file w = ResultsFile ls \<and> BadLine \<in> set ls)"
  shows "fst (getAllResults now w) = Inl GraveyardAccessError"
    and "cachedResults (snd (getAllResults now w)) = cachedResults w"
    and "lastCacheUpdate (snd (getAllResults now w)) = lastCacheUpdate w"
  using assms
  by (auto simp: getAllResults_def refreshCacheIfNeeded_def loadResultsFromFile_def
      readResultsFile_def next_fault_def fault_free_def parse_lines_bad split: list.splits)

lemma getAllResults_stale_ignores_cache:
  assumes "now - lastCacheUpdate v > cacheTimeout"
  shows "fst (getAllResults now (v\<lparr>cachedResults := cs\<rparr>)) = fst (getAllResults now v)"
  using assms
  by (auto simp: getAllResults_def refreshCacheIfNeeded_def loadResultsFromFile_def
      readResultsFile_def next_fault_def split: list.splits results_source.splits sum.splits)

text \<open>
  Claim C5 as stated fails in its last part. In \<open>brokenWorld\<close> the cache holds two records
  from time 1000 and the log has a line that is not JSON. A call at time 40000 fails, the
  two records are still in memory, and a call after it fails again: no caller is served
  the retained snapshot.
\<close>

theorem retained_snapshot_is_not_served:
  "fst (getAllResults 40000 brokenWorld) = Inl GraveyardAccessError
   \<and> cachedResults (snd (getAllResults 40000 brokenWorld)) = [shambler, survivor]
   \<and> fst (getAllResults 50000 (snd (getAllResults 40000 brokenWorld))) = Inl GraveyardAccessError"
  by (simp add: brokenWorld_def calmWorld_def getAllResults_def refreshCacheIfNeeded_def
      loadResultsFromFile_def readResultsFile_def next_fault_def cacheTimeout_def)

text \<open>
  Claim C5, amended. At a stale call: when the results source is absent (and the read
  does not fail otherwise) the refresh installs the empty snapshot and \<open>getAllResults\<close>
  succeeds with zero records; when the read fails for another reason or a line does not
  parse, \<open>getAllResults\<close> fails with the storage error, and \<open>cachedResults\<close> and
  \<open>lastCacheUpdate\<close> keep their values. The retained snapshot is not served: every call at
  the same or a later time is stale again, and what a stale call returns does not depend
  on the snapshot held.
\<close>

theorem refresh_failure_modes:
  assumes stale: "now - lastCacheUpdate w > cacheTimeout"
  shows "(results_file w = NoResultsFile \<and> fault_free 1 w \<longrightarrow>
            fst (getAllResults now w) = Inr []
          \<and> cachedResults (snd (getAllResults now w)) = [])
       \<and> (\<not> fault_free 1 w \<or> (\<exists>ls. results_file w = ResultsFile ls \<and> BadLine \<in> set ls) \<longrightarrow>
            fst (getAllResults now w) = Inl GraveyardAccessError
          \<and> cachedResults (snd (getAllResults now w)) = cachedResults w
          \<and> lastCacheUpdate (snd (getAllResults now w)) = lastCacheUpdate w
          \<and> (\<forall>later cs. now \<le> later \<longrightarrow>
                fst (getAllResults later ((snd (getAllResults now w))\<lparr>cachedResults := cs\<rparr>))
                  = fst (getAllResults later (snd (getAllResults now w)))))"
proof (intro conjI impI allI)
  assume a: "results_file w = NoResultsFile \<and> fault_free 1 w"
  show "fst (getAllResults now w) = Inr []"
    using getAllResults_stale_missing(1) [OF stale] a by blast
  show "cachedResults (snd (getAllResults now w)) = []"
    using getAllResults_stale_missing(2) [OF stale] a by blast
next
  assume b: "\<not> fault_free 1 w \<or> (\<exists>ls. results_file w = ResultsFile ls \<and> BadLine \<in> set ls)"
  show "fst (getAllResults now w) = Inl GraveyardAccessError"
    by (rule getAllResults_stale_failing(1) [OF stale b])
  show "cachedResults (snd (getAllResults now w)) = cachedResults w"
    by (rule getAllResults_stale_failing(2) [OF stale b])
  show l: "lastCacheUpdate (snd (getAllResults now w)) = lastCacheUpdate w"
    by (rule getAllResults_stale_failing(3) [OF stale b])
  fix later :: int and cs
  assume "now \<le> later"
  with stale l have "later - lastCacheUpdate (snd (getAllResults now w)) > cacheTimeout"
    by simp
  then show "fst (getAllResults later ((snd (getAllResults now w))\<lparr>cachedResults := cs\<rparr>))
                  = fst (getAllResults later (snd (getAllResults now w)))"
    by (rule getAllResults_stale_ignores_cache)
qed

theorem refresh_failure_modes_witness:
  "40000 - lastCacheUpdate missingWorld > cacheTimeout
   \<and> results_file missingWorld = NoResultsFile \<and> fault_free 1 missingWorld
   \<and> fst (getAllResults 40000 missingWorld) = Inr []
   \<and> 40000 - lastCacheUpdate brokenWorld > cacheTimeout
   \<and> results_file brokenWorld = ResultsFile [JsonLine shambler, BadLine]
   \<and> fst (getAllResults 40000 brokenWorld) = Inl GraveyardAccessError
   \<and> cachedResults (snd (getAllResults 40000 brokenWorld)) = [shambler, survivor]
   \<and> fst (getAllResults 50000 ((snd (getAllResults 40000 brokenWorld))\<lparr>cachedResults := []\<rparr>))
       = fst (getAllResults 50000 (snd (getAllResults 40000 brokenWorld)))"
proof -
  have m: "40000 - lastCacheUpdate missingWorld > cacheTimeout"
    "results_file missingWorld = NoResultsFile" "fault_free 1 missingWorld"
    by (simp_all add: missingWorld_def calmWorld_def cacheTimeout_def fault_free_def)
  have b: "40000 - lastCacheUpdate brokenWorld > cacheTimeout"
    "results_file brokenWorld = ResultsFile [JsonLine shambler, BadLine]"
    "cachedResults brokenWorld = [shambler, survivor]"
    by (simp_all add: brokenWorld_def calmWorld_def cacheTimeout_def)
  have bad: "\<exists>ls. results_file brokenWorld = ResultsFile ls \<and> BadLine \<in> set ls"
    using b(2) by simp
  show ?thesis
    using refresh_failure_modes [OF m(1)] refresh_failure_modes [OF b(1)] m b bad
    by simp
qed

section \<open>RevivalLedger: reading the ledger\<close>

lemma loadRevivalLog_fails_iff:
  "(\<exists>e. fst (loadRevivalLog w) = Inl e) = (\<not> fault_free 1 w \<or> revival_log_file w = LedgerGarbage)"
  by (auto simp: loadRevivalLog_def next_fault_def fault_free_def
      split: list.splits ledger_source.splits)

text \<open>
  Claim C7 as stated fails. With a ledger file that is not JSON the loader raises a
  SyntaxError, yet \<open>getRevivalHistory\<close> returns the empty list and \<open>getRevivalStats\<close> the
  all-zero statistics.
\<close>

theorem ledger_error_not_surfaced:
  "fst (loadRevivalLog garbledLedgerWorld) = Inl SyntaxError
   \<and> fst (getRevivalHistory ''p1'' garbledLedgerWorld) = Inr []
   \<and> fst (getRevivalStats clock garbledLedgerWorld) = Inr emptyRevivalStats"
  by (simp add: garbledLedgerWorld_def calmWorld_def getRevivalHistory_def getRevivalStats_def
      loadRevivalLog_def next_fault_def)

text \<open>
  Claim C7, amended. When reading the ledger fails with a storage or parse error (the
  read fails for a reason other than a missing file, or the content is not JSON), the
  loader \<open>loadRevivalLog\<close> raises it, \<open>getRevivalHistory\<close> catches it and returns the empty
  sequence, and \<open>getRevivalStats\<close> catches it and returns the all-zero statistics with
  strategy \<open>'none'\<close>. Neither operation ever hands an error to its caller.
\<close>

theorem ledger_read_errors_are_swallowed:
  "(\<not> fault_free 1 w \<or> revival_log_file w = LedgerGarbage \<longrightarrow>
      (\<exists>e. fst (loadRevivalLog w) = Inl e)
    \<and> fst (getRevivalHistory promptId w) = Inr []
    \<and> fst (getRevivalStats getTime w) = Inr emptyRevivalStats)
   \<and> \<not> isl (fst (getRevivalHistory promptId w))
   \<and> \<not> isl (fst (getRevivalStats getTime w))"
proof (intro conjI impI)
  assume a: "\<not> fault_free 1 w \<or> revival_log_file w = LedgerGarbage"
  then show e: "\<exists>e. fst (loadRevivalLog w) = Inl e"
    by (simp add: loadRevivalLog_fails_iff)
  then obtain e w' where "loadRevivalLog w = (Inl e, w')"
    by (metis prod.collapse)
  then show "fst (getRevivalHistory promptId w) = Inr []"
    and "fst (getRevivalStats getTime w) = Inr emptyRevivalStats"
    by (simp_all add: getRevivalHistory_def getRevivalStats_def)
next
  show "\<not> isl (fst (getRevivalHistory promptId w))"
    by (simp add: getRevivalHistory_def split: prod.splits sum.splits)
  show "\<not> isl (fst (getRevivalStats getTime w))"
    by (simp add: getRevivalStats_def Let_def split: prod.splits sum.splits)
qed

theorem ledger_read_errors_are_swallowed_witness:
  "revival_log_file garbledLedgerWorld = LedgerGarbage
   \<and> (\<exists>e. fst (loadRevivalLog garbledLedgerWorld) = Inl e)
   \<and> fst (getRevivalHistory ''p1'' garbledLedgerWorld) = Inr []
   \<and> fst (getRevivalStats clock garbledLedgerWorld) = Inr emptyRevivalStats"
proof -
  have h: "revival_log_file garbledLedgerWorld = LedgerGarbage"
    by (simp add: garbledLedgerWorld_def)
  show ?thesis
    using ledger_read_errors_are_swallowed [of garbledLedgerWorld "''p1''" clock] h by blast
qed

section \<open>QueryEngine: an unknown sort field\<close>

lemma compareResults_unknown:
  assumes "sortBy \<notin> {''score'', ''timestamp'', ''cost'', ''latency''}"
  shows "compareResults getTime sortBy ord a b = 0"
  using assms by (simp add: compareResults_def sortValues_def)

text \<open>
  Claim C10. For a \<open>sort_by\<close> outside score, timestamp, cost and latency the comparator of
  \<open>sortResults\<close> returns 0 for every pair, and \<open>sortResults\<close> returns the sequence in its
  order; it is a total function, so nothing is raised.
\<close>

theorem sortResults_unknown_field_is_noop:
  assumes "sortBy \<notin> {''score'', ''timestamp'', ''cost'', ''latency''}"
  shows "(\<forall>a b. compareResults getTime sortBy ord a b = 0)
       \<and> sortResults getTime results sortBy ord = results"
  using assms
  by (simp add: compareResults_unknown sortResults_def js_sort_all_equal)

theorem sortResults_unknown_field_is_noop_witness:
  "''name'' \<notin> {''score'', ''timestamp'', ''cost'', ''latency''}
   \<and> sortResults clock [survivor, shambler] ''name'' Asc = [survivor, shambler]
   \<and> compareResults clock ''name'' Asc survivor shambler = 0"
proof -
  have h: "''name'' \<notin> {''score'', ''timestamp'', ''cost'', ''latency''}"
    by simp
  show ?thesis
    using sortResults_unknown_field_is_noop [OF h, of clock Asc "[survivor, shambler]"] h
    by blast
qed

section \<open>StatsAggregator: the mean latency\<close>

lemma map_filter_latencies:
  "List.map_filter latency_ms (map snd xs)
     = concat (map (\<lambda>(name, resp). case latency_ms resp of None \<Rightarrow> [] | Some l \<Rightarrow> [l]) xs)"
  by (induction xs) (auto simp: List.map_filter_simps split: option.splits)

lemma avgLatencyOf_spec: "avgLatencyOf r = spec_record_mean r"
  by (simp add: avgLatencyOf_def spec_record_mean_def reported_latencies_def
      map_filter_latencies foldl_plus_sum_list Let_def)

lemma calculateAverageLatency_spec:
  "results \<noteq> [] \<Longrightarrow> calculateAverageLatency results = spec_two_level_mean results"
  by (simp add: calculateAverageLatency_def spec_two_level_mean_def foldl_plus_map_sum_list
      avgLatencyOf_spec)

lemma two_means_example:
  "spec_two_level_mean [shambler, survivor] = 200" "spec_flat_mean [shambler, survivor] = 700 / 3"
  by (simp_all add: spec_two_level_mean_def spec_flat_mean_def spec_record_mean_def
      reported_latencies_def shambler_def survivor_def answer_def)

text \<open>
  Claim C8. For a non-empty record set the \<open>avg_latency\<close> of \<open>getGraveyardStats\<close> is the
  mean, across the records, of each record's own mean over the latencies its providers
  reported, a record without any counting 0. On the two example records it is 200, while
  the flat mean of the three latencies is 700/3.
\<close>

theorem avg_latency_is_two_level_mean:
  assumes "results \<noteq> []"
  shows "avg_latency (graveyardStatsOf getTime results) = spec_two_level_mean results
       \<and> (fst (getAllResults now w) = Inr results \<longrightarrow>
            map_sum id avg_latency (fst (getGraveyardStats getTime now w))
              = Inr (spec_two_level_mean results))"
proof (intro conjI impI)
  show g: "avg_latency (graveyardStatsOf getTime results) = spec_two_level_mean results"
    using assms by (simp add: graveyardStatsOf_def Let_def calculateAverageLatency_spec)
  assume "fst (getAllResults now w) = Inr results"
  then obtain w' where "getAllResults now w = (Inr results, w')"
    by (metis prod.collapse)
  then show "map_sum id avg_latency (fst (getGraveyardStats getTime now w))
              = Inr (spec_two_level_mean results)"
    using g by (simp add: getGraveyardStats_def)
qed

theorem avg_latency_is_two_level_mean_witness:
  "[shambler, survivor] \<noteq> []
   \<and> fst (getAllResults 2000 calmWorld) = Inr [shambler, survivor]
   \<and> avg_latency (graveyardStatsOf clock [shambler, survivor]) = 200
   \<and> map_sum id avg_latency (fst (getGraveyardStats clock 2000 calmWorld)) = Inr 200
   \<and> spec_flat_mean [shambler, survivor] = 700 / 3"
proof -
  have h: "[shambler, survivor] \<noteq> []"
    by simp
  have f: "fst (getAllResults 2000 calmWorld) = Inr [shambler, survivor]"
    by (simp add: getAllResults_fresh calmWorld_def cacheTimeout_def)
  show ?thesis
    using avg_latency_is_two_level_mean [OF h, of clock 2000 calmWorld] h f two_means_example
    by simp
qed

section \<open>RevivalLedger: file-system calls and the ledger file\<close>

lemma next_fault_eq: "next_fault w = (next_fails w, after_call w)"
  by (simp add: next_fault_def next_fails_def after_call_def split: list.splits)

lemma fault_free_0: "fault_free 0 w"
  by (simp add: fault_free_def)

lemma fault_free_Suc: "fault_free (Suc n) w = (\<not> next_fails w \<and> fault_free n (after_call w))"
  by (cases "io_faults w") (auto simp: fault_free_def next_fails_def after_call_def)

lemma after_call_fields:
  "revival_log_file (after_call w) = revival_log_file w"
  "results_file (after_call w) = results_file w"
  "cachedResults (after_call w) = cachedResults w"
  "lastCacheUpdate (after_call w) = lastCacheUpdate w"
  by (simp_all add: after_call_def)

lemma loadRevivalLog_eq:
  "loadRevivalLog w =
     (if next_fails w then Inl IOError
      else if revival_log_file w = LedgerGarbage then Inl SyntaxError
      else Inr (ledger_entries w), after_call w)"
  by (simp add: loadRevivalLog_def next_fault_eq ledger_entries_def after_call_fields
      split: ledger_source.splits)

lemma writeRevivalLog_eq:
  "writeRevivalLog revivalLog w =
     (if next_fails w then (Inl IOError, after_call w)
      else (Inr (), (after_call w)\<lparr>revival_log_file := LedgerJson revivalLog\<rparr>))"
  by (simp add: writeRevivalLog_def next_fault_eq)

lemma next_fails_ledger_update [simp]:
  "next_fails (w\<lparr>revival_log_file := f\<rparr>) = next_fails w"
  by (simp add: next_fails_def)

lemma after_call_ledger_update:
  "after_call (w\<lparr>revival_log_file := f\<rparr>) = (after_call w)\<lparr>revival_log_file := f\<rparr>"
  by (simp add: after_call_def)

lemma fault_free_ledger_update [simp]:
  "fault_free n (w\<lparr>revival_log_file := f\<rparr>) = fault_free n w"
  by (simp add: fault_free_def)

lemma logRevivalAttempt_ok:
  assumes "revival_log_file w \<noteq> LedgerGarbage" "fault_free 2 w"
  shows "logRevivalAttempt a w =
           (Inr (), (after_call (after_call w))\<lparr>revival_log_file := LedgerJson (ledger_entries w @ [a])\<rparr>)"
  using assms
  by (simp add: logRevivalAttempt_def loadRevivalLog_eq writeRevivalLog_eq numeral_2_eq_2
      fault_free_Suc)

lemma logRevivalAttempt_fails:
  assumes "revival_log_file w = LedgerGarbage \<or> \<not> fault_free 2 w"
  shows "\<exists>e. fst (logRevivalAttempt a w) = Inl e"
    and "revival_log_file (snd (logRevivalAttempt a w)) = revival_log_file w"
  using assms
  by (auto simp: logRevivalAttempt_def loadRevivalLog_eq writeRevivalLog_eq numeral_2_eq_2
      fault_free_Suc fault_free_0 after_call_fields)

lemma getAllResults_keeps_ledger:
  "revival_log_file (snd (getAllResults now w)) = revival_log_file w"
  by (auto simp: getAllResults_def refreshCacheIfNeeded_def loadResultsFromFile_def
      readResultsFile_def next_fault_eq after_call_fields
      split: results_source.splits sum.splits)

lemma getResultById_keeps_ledger:
  "revival_log_file (snd (getResultById now p w)) = revival_log_file w"
  using getAllResults_keeps_ledger [of now w]
  by (cases "getAllResults now w") (auto simp: getResultById_def split: sum.splits)

lemma getResultById_ledger_entries:
  "getResultById now p w = (x, w1) \<Longrightarrow> ledger_entries w1 = ledger_entries w"
  using getResultById_keeps_ledger [of now p w] by (simp add: ledger_entries_def)

lemma findIndex_Some: "findIndex p xs = Some i \<Longrightarrow> i < length xs \<and> p (xs ! i)"
  by (induction xs arbitrary: i) (auto split: if_splits)

lemma findIndex_append_fresh:
  "\<forall>x\<in>set xs. \<not> p x \<Longrightarrow> p y \<Longrightarrow> findIndex p (xs @ [y]) = Some (length xs)"
  by (induction xs) auto

lemma ledger_entries_after_call [simp]: "ledger_entries (after_call w) = ledger_entries w"
  by (simp add: ledger_entries_def after_call_fields)

lemma ledger_entries_written [simp]:
  "ledger_entries (w\<lparr>revival_log_file := LedgerJson xs\<rparr>) = xs"
  by (simp add: ledger_entries_def)

lemma logRevivalAttempt_keeps:
  "logRevivalAttempt att v = (x, v') \<Longrightarrow> a \<in> set (ledger_entries v) \<Longrightarrow> a \<in> set (ledger_entries v')"
  by (auto simp: logRevivalAttempt_def loadRevivalLog_eq writeRevivalLog_eq split: if_splits)

lemma updateRevivalStatus_keeps:
  assumes "a \<in> set (ledger_entries v)" "a_revival_id a \<noteq> rid"
  shows "a \<in> set (ledger_entries (updateRevivalStatus rid st v))"
proof (cases "findIndex (\<lambda>attempt. a_revival_id attempt = rid) (ledger_entries v)")
  case None
  with assms show ?thesis
    by (simp add: updateRevivalStatus_def loadRevivalLog_eq)
next
  case (Some i)
  then have i: "i < length (ledger_entries v)" "a_revival_id (ledger_entries v ! i) = rid"
    using findIndex_Some by fastforce+
  obtain j where j: "j < length (ledger_entries v)" "ledger_entries v ! j = a"
    using assms(1) by (auto simp: in_set_conv_nth)
  with i assms(2) have "j \<noteq> i" by auto
  with j have "a \<in> set ((ledger_entries v)[i := y])" for y
    by (metis length_list_update nth_list_update_neq nth_mem)
  with Some assms(1) show ?thesis
    by (simp add: updateRevivalStatus_def loadRevivalLog_eq writeRevivalLog_eq)
qed

lemma revivePrompt_keeps_other_attempts:
  assumes "a \<in> set (ledger_entries v)" "a_revival_id a \<noteq> uuid"
  shows "a \<in> set (ledger_entries (snd (revivePrompt now nowIso uuid request v)))"
proof -
  obtain x v1 where g: "getResultById now (rq_prompt_id request) v = (x, v1)"
    by (cases "getResultById now (rq_prompt_id request) v")
  then have a1: "a \<in> set (ledger_entries v1)"
    using assms(1) getResultById_ledger_entries by simp
  show ?thesis
    using g a1 assms(2)
    by (auto simp: revivePrompt_def Let_def updateRevivalStatus_keeps
        split: sum.splits option.splits prod.splits dest: logRevivalAttempt_keeps)
qed

lemma updateRevivalStatus_fails:
  assumes "\<not> fault_free 2 v"
  shows "revival_log_file (updateRevivalStatus rid st v) = revival_log_file v"
  using assms
  by (auto simp: updateRevivalStatus_def loadRevivalLog_eq writeRevivalLog_eq numeral_2_eq_2
      fault_free_Suc fault_free_0 after_call_fields split: option.splits)

lemma updateRevivalStatus_ok:
  assumes "fault_free 2 v" "revival_log_file v = LedgerJson (xs @ [att])"
    and "a_revival_id att = rid" "\<forall>x\<in>set xs. a_revival_id x \<noteq> rid"
  shows "revival_log_file (updateRevivalStatus rid st v) = LedgerJson (xs @ [att\<lparr>a_status := st\<rparr>])"
proof -
  have "findIndex (\<lambda>attempt. a_revival_id attempt = rid) (xs @ [att]) = Some (length xs)"
    using assms(3,4) by (intro findIndex_append_fresh) auto
  moreover have "ledger_entries v = xs @ [att]"
    using assms(2) by (simp add: ledger_entries_def)
  ultimately show ?thesis
    using assms(1,2)
    by (simp add: updateRevivalStatus_def loadRevivalLog_eq writeRevivalLog_eq numeral_2_eq_2
        fault_free_Suc)
qed

lemma fault_free_4:
  "fault_free 4 w = (fault_free 2 w \<and> fault_free 2 (after_call (after_call w)))"
  by (simp add: eval_nat_numeral fault_free_Suc fault_free_0)

lemma js_index_in_bounds:
  "0 \<le> i \<Longrightarrow> i < int (length xs) \<Longrightarrow> js_index xs i = Some (xs ! nat i)"
  by (simp add: js_index_def)


lemma loadRevivalLog_keeps:
  "loadRevivalLog v = (x, v') \<Longrightarrow> ledger_entries v' = ledger_entries v"
  by (auto simp: loadRevivalLog_eq)

lemma perform_keeps_other_attempts:
  assumes "a \<in> set (ledger_entries v)" "\<not> uses_uuid (a_revival_id a) c"
  shows "a \<in> set (ledger_entries (perform getTime c v))"
proof (cases c)
  case (Revive now nowIso uuid request)
  with assms show ?thesis by (simp add: revivePrompt_keeps_other_attempts)
next
  case (History p)
  with assms(1) show ?thesis
    by (cases "loadRevivalLog v") (auto simp: getRevivalHistory_def split: sum.splits dest: loadRevivalLog_keeps)
next
  case Stats
  with assms(1) show ?thesis
    by (cases "loadRevivalLog v") (auto simp: getRevivalStats_def Let_def split: sum.splits dest: loadRevivalLog_keeps)
next
  case (GetAll now)
  with assms(1) show ?thesis
    using getAllResults_keeps_ledger [of now v] by (simp add: ledger_entries_def)
qed

lemma perform_all_keeps_other_attempts:
  "a \<in> set (ledger_entries v) \<Longrightarrow> \<forall>c\<in>set cs. \<not> uses_uuid (a_revival_id a) c
     \<Longrightarrow> a \<in> set (ledger_entries (perform_all getTime cs v))"
  by (induction cs arbitrary: v) (auto simp: perform_keeps_other_attempts)

lemma revivePrompt_logged:
  assumes found: "getResultById now (rq_prompt_id request) w = (Inr (Some r), w1)"
      and zombie: "is_zombie (zombie_status r)"
      and sugg: "js_index (revival_suggestions r) (rq_suggestion_index request) = Some s"
      and ok: "revival_log_file w1 \<noteq> LedgerGarbage" "fault_free 2 w1"
  shows "revivePrompt now nowIso uuid request w =
           (\<lparr>r_success = confidence_score s > 0.6,
             r_message = (if confidence_score s > 0.6 then RitualSuccessful (strategy s)
                          else RitualFailed),
             r_original_prompt = prompt_text r,
             r_improved_prompt = improved_prompt s,
             r_expected_improvements = expected_improvements s,
             r_revival_id = uuid\<rparr>,
            updateRevivalStatus uuid (if confidence_score s > 0.6 then Success else Failed)
              ((after_call (after_call w1))
                 \<lparr>revival_log_file :=
                    LedgerJson (ledger_entries w1 @ [pendingAttempt uuid nowIso request r s])\<rparr>))"
  using found zombie sugg
  by (simp add: revivePrompt_def Let_def logRevivalAttempt_ok [OF ok])

lemma revivePrompt_not_logged:
  assumes found: "getResultById now (rq_prompt_id request) w = (Inr (Some r), w1)"
      and zombie: "is_zombie (zombie_status r)"
      and sugg: "js_index (revival_suggestions r) (rq_suggestion_index request) = Some s"
      and bad: "revival_log_file w1 = LedgerGarbage \<or> \<not> fault_free 2 w1"
  shows "fst (revivePrompt now nowIso uuid request w) = failureResponse Interrupted []"
proof -
  obtain e v where "logRevivalAttempt (pendingAttempt uuid nowIso request r s) w1 = (Inl e, v)"
    using logRevivalAttempt_fails(1) [OF bad] by (metis prod.collapse)
  then show ?thesis
    using found zombie sugg by (simp add: revivePrompt_def Let_def)
qed

section \<open>RevivalLedger: attempts\<close>

lemma example_requests:
  "rq_prompt_id (reviveRequest i) = ''p1''" "rq_suggestion_index (reviveRequest i) = i"
  "rq_prompt_id survivorRequest = ''p2''" "rq_suggestion_index survivorRequest = 0"
  by (simp_all add: reviveRequest_def survivorRequest_def)

lemma example_records:
  "prompt_id shambler = ''p1''" "prompt_id survivor = ''p2''"
  "is_zombie (zombie_status shambler)" "\<not> is_zombie (zombie_status survivor)"
  "revival_suggestions shambler = [strongFix, weakFix]"
  "confidence_score strongFix = 0.75" "confidence_score weakFix = 0.4"
  by (simp_all add: shambler_def survivor_def strongFix_def weakFix_def)

lemma example_lookup:
  assumes "cachedResults w = [shambler, survivor]" "lastCacheUpdate w = 1000"
  shows "getResultById 2000 ''p1'' w = (Inr (Some shambler), w)"
    and "getResultById 2000 ''p2'' w = (Inr (Some survivor), w)"
  using assms
  by (simp_all add: getResultById_def getAllResults_fresh cacheTimeout_def example_records)

lemma example_worlds:
  "cachedResults calmWorld = [shambler, survivor]" "lastCacheUpdate calmWorld = 1000"
  "cachedResults garbledLedgerWorld = [shambler, survivor]" "lastCacheUpdate garbledLedgerWorld = 1000"
  "cachedResults flakyWorld = [shambler, survivor]" "lastCacheUpdate flakyWorld = 1000"
  "revival_log_file calmWorld = NoLedgerFile" "revival_log_file flakyWorld = NoLedgerFile"
  "revival_log_file garbledLedgerWorld = LedgerGarbage"
  "ledger_entries calmWorld = []" "ledger_entries flakyWorld = []"
  "fault_free 2 calmWorld" "fault_free 4 calmWorld"
  "fault_free 2 flakyWorld" "\<not> fault_free 4 flakyWorld"
  by (simp_all add: calmWorld_def garbledLedgerWorld_def flakyWorld_def ledger_entries_def
      fault_free_def)

text \<open>
  Claim C1 as stated fails when the ledger cannot be written. In \<open>garbledLedgerWorld\<close>
  the ledger file is not JSON; the record \<open>p1\<close> is a zombie and its suggestion 0 has
  confidence 0.75, yet \<open>revivePrompt\<close> answers with success false and the "interrupted"
  message.
\<close>

theorem interrupted_despite_confident_suggestion:
  "fst (getResultById 2000 ''p1'' garbledLedgerWorld) = Inr (Some shambler)
   \<and> is_zombie (zombie_status shambler)
   \<and> revival_suggestions shambler ! 0 = strongFix
   \<and> confidence_score strongFix > 0.6
   \<and> \<not> r_success (fst (revivePrompt 2000 ''2024-01-03T00:00:00.000Z'' ''u1''
                           (reviveRequest 0) garbledLedgerWorld))
   \<and> r_message (fst (revivePrompt 2000 ''2024-01-03T00:00:00.000Z'' ''u1''
                           (reviveRequest 0) garbledLedgerWorld)) = Interrupted"
  by (simp add: example_lookup example_worlds example_records example_requests
      revivePrompt_def js_index_def Let_def logRevivalAttempt_def loadRevivalLog_eq
      next_fails_def garbledLedgerWorld_def calmWorld_def failureResponse_def)

text \<open>
  Claim C1, amended. For a record that the lookup finds, that is a zombie, and a
  suggestion index within bounds: when the attempt can be appended to the ledger (the
  ledger file is absent or holds JSON, and neither its read nor its write fails),
  \<open>revivePrompt\<close> returns success exactly when the suggestion's confidence score is
  greater than 0.6, with the matching message, the suggestion's prompt and expected
  improvements and the new identifier; when also the status update goes through and the
  identifier is new to the ledger, the stored attempt has status \<open>success\<close> or \<open>failed\<close>
  by the same test. The response is a function of the suggestion, the prompt text and the
  identifier only, so repeated calls with the same suggestion resolve alike. When the
  attempt cannot be appended, the response is the "interrupted" failure, whatever the
  confidence score.
\<close>

theorem revivePrompt_resolution:
  assumes found: "getResultById now (rq_prompt_id request) w = (Inr (Some r), w1)"
      and zombie: "is_zombie (zombie_status r)"
      and inb: "0 \<le> rq_suggestion_index request"
               "rq_suggestion_index request < int (length (revival_suggestions r))"
      and s: "s = revival_suggestions r ! nat (rq_suggestion_index request)"
  shows "(revival_log_file w1 \<noteq> LedgerGarbage \<and> fault_free 2 w1 \<longrightarrow>
            fst (revivePrompt now nowIso uuid request w) =
              \<lparr>r_success = confidence_score s > 0.6,
               r_message = (if confidence_score s > 0.6 then RitualSuccessful (strategy s)
                            else RitualFailed),
               r_original_prompt = prompt_text r,
               r_improved_prompt = improved_prompt s,
               r_expected_improvements = expected_improvements s,
               r_revival_id = uuid\<rparr>)
       \<and> (revival_log_file w1 \<noteq> LedgerGarbage \<and> fault_free 4 w1
            \<and> uuid \<notin> a_revival_id ` set (ledger_entries w1) \<longrightarrow>
            revival_log_file (snd (revivePrompt now nowIso uuid request w)) =
              LedgerJson (ledger_entries w1 @
                [(pendingAttempt uuid nowIso request r s)
                   \<lparr>a_status := (if confidence_score s > 0.6 then Success else Failed)\<rparr>]))
       \<and> (revival_log_file w1 = LedgerGarbage \<or> \<not> fault_free 2 w1 \<longrightarrow>
            fst (revivePrompt now nowIso uuid request w) = failureResponse Interrupted [])"
proof -
  have sugg: "js_index (revival_suggestions r) (rq_suggestion_index request) = Some s"
    using inb s by (simp add: js_index_in_bounds)
  show ?thesis
  proof (intro conjI impI)
    assume "revival_log_file w1 \<noteq> LedgerGarbage \<and> fault_free 2 w1"
    then show "fst (revivePrompt now nowIso uuid request w) =
              \<lparr>r_success = confidence_score s > 0.6,
               r_message = (if confidence_score s > 0.6 then RitualSuccessful (strategy s)
                            else RitualFailed),
               r_original_prompt = prompt_text r,
               r_improved_prompt = improved_prompt s,
               r_expected_improvements = expected_improvements s,
               r_revival_id = uuid\<rparr>"
      by (simp add: revivePrompt_logged [OF found zombie sugg])
  next
    assume a: "revival_log_file w1 \<noteq> LedgerGarbage \<and> fault_free 4 w1
                 \<and> uuid \<notin> a_revival_id ` set (ledger_entries w1)"
    then have ok: "revival_log_file w1 \<noteq> LedgerGarbage" "fault_free 2 w1"
      and ff: "fault_free 2 (after_call (after_call w1))"
      and fresh: "\<forall>x\<in>set (ledger_entries w1). a_revival_id x \<noteq> uuid"
      by (auto simp: fault_free_4)
    have "revival_log_file
            (updateRevivalStatus uuid (if confidence_score s > 0.6 then Success else Failed)
              ((after_call (after_call w1))
                 \<lparr>revival_log_file :=
                    LedgerJson (ledger_entries w1 @ [pendingAttempt uuid nowIso request r s])\<rparr>))
          = LedgerJson (ledger_entries w1 @
                [(pendingAttempt uuid nowIso request r s)
                   \<lparr>a_status := (if confidence_score s > 0.6 then Success else Failed)\<rparr>])"
      using ff fresh by (intro updateRevivalStatus_ok) (simp_all add: pendingAttempt_def)
    then show "revival_log_file (snd (revivePrompt now nowIso uuid request w)) =
              LedgerJson (ledger_entries w1 @
                [(pendingAttempt uuid nowIso request r s)
                   \<lparr>a_status := (if confidence_score s > 0.6 then Success else Failed)\<rparr>])"
      by (simp add: revivePrompt_logged [OF found zombie sugg ok])
  next
    assume "revival_log_file w1 = LedgerGarbage \<or> \<not> fault_free 2 w1"
    then show "fst (revivePrompt now nowIso uuid request w) = failureResponse Interrupted []"
      by (rule revivePrompt_not_logged [OF found zombie sugg])
  qed
qed

text \<open>
  Claim C9. When the attempt was appended to the ledger and then the status update fails
  with a storage error (its read or its write fails), \<open>revivePrompt\<close> still returns the
  resolved outcome, success exactly when the confidence score is greater than 0.6, with
  the success or failure message and not the "interrupted" one; the ledger file holds the
  attempt with status \<open>pending\<close>; and the attempt stays in the ledger as it is, with that
  status, through every later sequence of calls of the service in which no revival draws
  the same identifier again.
\<close>

theorem status_update_failure_is_silent:
  assumes found: "getResultById now (rq_prompt_id request) w = (Inr (Some r), w1)"
      and zombie: "is_zombie (zombie_status r)"
      and inb: "0 \<le> rq_suggestion_index request"
               "rq_suggestion_index request < int (length (revival_suggestions r))"
      and s: "s = revival_suggestions r ! nat (rq_suggestion_index request)"
      and logged: "revival_log_file w1 \<noteq> LedgerGarbage" "fault_free 2 w1"
      and update_fails: "\<not> fault_free 4 w1"
  shows "r_success (fst (revivePrompt now nowIso uuid request w)) = (confidence_score s > 0.6)
       \<and> r_message (fst (revivePrompt now nowIso uuid request w))
           = (if confidence_score s > 0.6 then RitualSuccessful (strategy s) else RitualFailed)
       \<and> revival_log_file (snd (revivePrompt now nowIso uuid request w))
           = LedgerJson (ledger_entries w1 @ [pendingAttempt uuid nowIso request r s])
       \<and> a_status (pendingAttempt uuid nowIso request r s) = Pending
       \<and> (\<forall>calls. (\<forall>c\<in>set calls. \<not> uses_uuid uuid c) \<longrightarrow>
             pendingAttempt uuid nowIso request r s
               \<in> set (ledger_entries
                        (perform_all getTime calls (snd (revivePrompt now nowIso uuid request w)))))"
proof -
  have sugg: "js_index (revival_suggestions r) (rq_suggestion_index request) = Some s"
    using inb s by (simp add: js_index_in_bounds)
  note eq = revivePrompt_logged [OF found zombie sugg logged, of nowIso uuid]
  have ff: "\<not> fault_free 2 ((after_call (after_call w1))
                 \<lparr>revival_log_file :=
                    LedgerJson (ledger_entries w1 @ [pendingAttempt uuid nowIso request r s])\<rparr>)"
    using logged(2) update_fails by (simp add: fault_free_4)
  have stored: "revival_log_file (snd (revivePrompt now nowIso uuid request w))
           = LedgerJson (ledger_entries w1 @ [pendingAttempt uuid nowIso request r s])"
    by (simp add: eq updateRevivalStatus_fails [OF ff])
  have mem: "pendingAttempt uuid nowIso request r s
               \<in> set (ledger_entries (snd (revivePrompt now nowIso uuid request w)))"
    using stored by (simp add: ledger_entries_def)
  have id: "a_revival_id (pendingAttempt uuid nowIso request r s) = uuid"
    by (simp add: pendingAttempt_def)
  show ?thesis
  proof (intro conjI allI impI)
    show "r_success (fst (revivePrompt now nowIso uuid request w)) = (confidence_score s > 0.6)"
      by (simp add: eq)
    show "r_message (fst (revivePrompt now nowIso uuid request w))
           = (if confidence_score s > 0.6 then RitualSuccessful (strategy s) else RitualFailed)"
      by (simp add: eq)
    show "revival_log_file (snd (revivePrompt now nowIso uuid request w))
           = LedgerJson (ledger_entries w1 @ [pendingAttempt uuid nowIso request r s])"
      by (rule stored)
    show "a_status (pendingAttempt uuid nowIso request r s) = Pending"
      by (simp add: pendingAttempt_def)
  next
    fix calls
    assume "\<forall>c\<in>set calls. \<not> uses_uuid uuid c"
    then show "pendingAttempt uuid nowIso request r s
               \<in> set (ledger_entries
                        (perform_all getTime calls (snd (revivePrompt now nowIso uuid request w))))"
      using mem id by (intro perform_all_keeps_other_attempts) simp_all
  qed
qed


theorem revivePrompt_resolution_witness:
  "getResultById 2000 ''p1'' calmWorld = (Inr (Some shambler), calmWorld)
   \<and> is_zombie (zombie_status shambler)
   \<and> revival_log_file calmWorld \<noteq> LedgerGarbage \<and> fault_free 4 calmWorld
   \<and> r_success (fst (revivePrompt 2000 ''2024-01-03T00:00:00.000Z'' ''u1'' (reviveRequest 0) calmWorld))
   \<and> \<not> r_success (fst (revivePrompt 2000 ''2024-01-03T00:00:00.000Z'' ''u1'' (reviveRequest 1) calmWorld))
   \<and> revival_log_file (snd (revivePrompt 2000 ''2024-01-03T00:00:00.000Z'' ''u1'' (reviveRequest 0) calmWorld))
       = LedgerJson [(pendingAttempt ''u1'' ''2024-01-03T00:00:00.000Z'' (reviveRequest 0) shambler strongFix)
                       \<lparr>a_status := Success\<rparr>]
   \<and> fst (revivePrompt 2000 ''2024-01-03T00:00:00.000Z'' ''u1'' (reviveRequest 0) garbledLedgerWorld)
       = failureResponse Interrupted []"
proof -
  have f: "getResultById 2000 (rq_prompt_id (reviveRequest i)) calmWorld = (Inr (Some shambler), calmWorld)"
    "getResultById 2000 (rq_prompt_id (reviveRequest i)) garbledLedgerWorld
       = (Inr (Some shambler), garbledLedgerWorld)" for i
    by (simp_all add: example_requests example_lookup example_worlds)
  have z: "is_zombie (zombie_status shambler)"
    by (simp add: example_records)
  have i0: "0 \<le> rq_suggestion_index (reviveRequest 0)"
    "rq_suggestion_index (reviveRequest 0) < int (length (revival_suggestions shambler))"
    "strongFix = revival_suggestions shambler ! nat (rq_suggestion_index (reviveRequest 0))"
    by (simp_all add: example_requests example_records)
  have i1: "0 \<le> rq_suggestion_index (reviveRequest 1)"
    "rq_suggestion_index (reviveRequest 1) < int (length (revival_suggestions shambler))"
    "weakFix = revival_suggestions shambler ! nat (rq_suggestion_index (reviveRequest 1))"
    by (simp_all add: example_requests example_records)
  note a = revivePrompt_resolution [OF f(1) z i0, of "''2024-01-03T00:00:00.000Z''" "''u1''"]
  note b = revivePrompt_resolution [OF f(1) z i1, of "''2024-01-03T00:00:00.000Z''" "''u1''"]
  note c = revivePrompt_resolution [OF f(2) z i0, of "''2024-01-03T00:00:00.000Z''" "''u1''"]
  show ?thesis
    using a b c f [of 0] z
    by (simp add: example_worlds example_records example_requests)
qed

theorem status_update_failure_is_silent_witness:
  "getResultById 2000 ''p1'' flakyWorld = (Inr (Some shambler), flakyWorld)
   \<and> is_zombie (zombie_status shambler)
   \<and> fault_free 2 flakyWorld \<and> \<not> fault_free 4 flakyWorld
   \<and> r_success (fst (revivePrompt 2000 ''2024-01-03T00:00:00.000Z'' ''u1'' (reviveRequest 0) flakyWorld))
   \<and> revival_log_file (snd (revivePrompt 2000 ''2024-01-03T00:00:00.000Z'' ''u1'' (reviveRequest 0) flakyWorld))
       = LedgerJson [pendingAttempt ''u1'' ''2024-01-03T00:00:00.000Z'' (reviveRequest 0) shambler strongFix]
   \<and> a_status (pendingAttempt ''u1'' ''2024-01-03T00:00:00.000Z'' (reviveRequest 0) shambler strongFix) = Pending
   \<and> pendingAttempt ''u1'' ''2024-01-03T00:00:00.000Z'' (reviveRequest 0) shambler strongFix
       \<in> set (ledger_entries
           (perform_all clock
              [Revive 3000 ''2024-01-04T00:00:00.000Z'' ''u2'' (reviveRequest 1), History ''p1'', Stats]
              (snd (revivePrompt 2000 ''2024-01-03T00:00:00.000Z'' ''u1'' (reviveRequest 0) flakyWorld))))"
proof -
  have f: "getResultById 2000 (rq_prompt_id (reviveRequest 0)) flakyWorld = (Inr (Some shambler), flakyWorld)"
    by (simp add: example_requests example_lookup example_worlds)
  have z: "is_zombie (zombie_status shambler)"
    by (simp add: example_records)
  have i0: "0 \<le> rq_suggestion_index (reviveRequest 0)"
    "rq_suggestion_index (reviveRequest 0) < int (length (revival_suggestions shambler))"
    "strongFix = revival_suggestions shambler ! nat (rq_suggestion_index (reviveRequest 0))"
    by (simp_all add: example_requests example_records)
  have l: "revival_log_file flakyWorld \<noteq> LedgerGarbage" "fault_free 2 flakyWorld"
    "\<not> fault_free 4 flakyWorld"
    by (simp_all add: example_worlds)
  have u: "\<forall>c\<in>set [Revive 3000 ''2024-01-04T00:00:00.000Z'' ''u2'' (reviveRequest 1), History ''p1'', Stats].
             \<not> uses_uuid ''u1'' c"
    by simp
  note a = status_update_failure_is_silent [OF f z i0 l, of "''2024-01-03T00:00:00.000Z''" "''u1''" clock]
  note m = a [THEN conjunct2, THEN conjunct2, THEN conjunct2, THEN conjunct2, THEN spec, THEN mp, OF u]
  show ?thesis
    using a m f z l
    by (simp add: example_worlds example_records example_requests del: perform_all.simps)
qed


section \<open>QueryEngine: filter, total and page\<close>

lemma num_lt_spec: "(\<not> num_lt a b) = spec_in_range b a"
  by (auto simp: num_lt_def spec_in_range_def split: option.splits)

lemma applyFilters_spec:
  "applyFilters getTime results fs = filter (spec_matches getTime fs) results"
  unfolding applyFilters_def
  by (rule filter_cong)
     (auto simp: spec_matches_def num_lt_spec [symmetric] split: option.splits js_number.splits)

lemma applyFilters_nan_bounds:
  "applyFilters getTime results (fs\<lparr>min_score := Some NaN\<rparr>)
     = applyFilters getTime results (fs\<lparr>min_score := None\<rparr>)"
  "applyFilters getTime results (fs\<lparr>max_score := Some NaN\<rparr>)
     = applyFilters getTime results (fs\<lparr>max_score := None\<rparr>)"
  by (simp_all add: applyFilters_def)

lemma filteredZombies_spec:
  "filteredZombies getTime results filters
     = filter (\<lambda>r. is_zombie (zombie_status r) \<and> spec_matches_opt getTime filters r) results"
  by (cases filters)
     (auto simp: filteredZombies_def spec_matches_opt_def applyFilters_spec intro: filter_cong)

lemma mset_js_insert: "mset (js_insert cmp x ys) = add_mset x (mset ys)"
  by (induction ys) auto

lemma mset_js_sort: "mset (js_sort cmp xs) = mset xs"
  by (induction xs) (auto simp: mset_js_insert)

lemma mset_sortedZombies: "mset (sortedZombies getTime zs pg) = mset zs"
  by (simp add: sortedZombies_def sortResults_def mset_js_sort split: option.splits)


lemma js_slice_contiguous: "\<exists>k n. js_slice xs start stop = take n (drop k xs)"
  unfolding js_slice_def Let_def by blast


lemma or_default_cases:
  "or_default None d = d" "or_default (Some 0) d = d" "n \<noteq> 0 \<Longrightarrow> or_default (Some n) d = n"
  by (simp_all add: or_default_def)

lemma noFilters_match:
  "spec_matches getTime noFilters r" "spec_matches_opt getTime (Some noFilters) r"
  "spec_matches_opt getTime None r"
  by (simp_all add: spec_matches_opt_def spec_matches_def noFilters_def)

lemma example_matches:
  "spec_matches clock shamblingFilters shambler"
  "\<not> spec_matches clock strictFilters shambler"
  "spec_matches clock nanFilters shambler"
  "spec_matches getTime nanFilters survivor"
  by (simp_all add: spec_matches_def shamblingFilters_def strictFilters_def nanFilters_def
      noFilters_def spec_in_range_def clock_def shambler_def survivor_def)


text \<open>
  Claim C2 as stated fails for \<open>getZombiePrompts\<close>. The snapshot holds one zombie and one
  living record and no predicate is supplied: both records satisfy the empty conjunction,
  but the total returned is 1.
\<close>

theorem zombie_total_ignores_living_records:
  "fst (getAllResults 2000 calmWorld) = Inr [shambler, survivor]
   \<and> map_sum id z_total (fst (getZombiePrompts clock 2000 (Some noFilters) None calmWorld)) = Inr 1
   \<and> length (filter (spec_matches clock noFilters) [shambler, survivor]) = 2"
  by (simp add: getZombiePrompts_def getAllResults_fresh calmWorld_def cacheTimeout_def
      zombiePromptsOf_def Let_def filteredZombies_spec noFilters_match example_records)

text \<open>
  Claim C2, amended. For every record set and every combination of supplied predicates,
  the total returned by \<open>getZombiePrompts\<close> is the number of zombie records of the set
  that satisfy every supplied predicate (the restriction to zombies always applies; a
  predicate is supplied when its field is defined and, for a string field, not empty,
  and, for a score bound, not NaN; a date bound constrains a record only when both dates
  are valid). The total is the same
  with and without pagination. The items returned are the summaries of a contiguous slice
  of the filtered-and-sorted sequence, which is a rearrangement of the filtered records.
\<close>

theorem zombie_query_total_and_slice:
  "z_total (zombiePromptsOf getTime results filters pagination)
     = length (filter (\<lambda>r. is_zombie (zombie_status r) \<and> spec_matches_opt getTime filters r) results)
   \<and> z_total (zombiePromptsOf getTime results filters pagination)
       = z_total (zombiePromptsOf getTime results filters None)
   \<and> (\<exists>sorted k n.
         mset sorted = mset (filter (\<lambda>r. is_zombie (zombie_status r)
                                         \<and> spec_matches_opt getTime filters r) results)
       \<and> sorted = (case pagination of
                     None \<Rightarrow> filteredZombies getTime results filters
                   | Some pg \<Rightarrow> sortedZombies getTime (filteredZombies getTime results filters) pg)
       \<and> z_zombies (zombiePromptsOf getTime results filters pagination)
           = map mapToPromptSummary (take n (drop k sorted)))
   \<and> (fst (getAllResults now w) = Inr results \<longrightarrow>
         fst (getZombiePrompts getTime now filters pagination w)
           = Inr (zombiePromptsOf getTime results filters pagination))"
proof (intro conjI impI)
  show "z_total (zombiePromptsOf getTime results filters pagination)
     = length (filter (\<lambda>r. is_zombie (zombie_status r) \<and> spec_matches_opt getTime filters r) results)"
    by (simp add: zombiePromptsOf_def Let_def filteredZombies_spec)
  show "z_total (zombiePromptsOf getTime results filters pagination)
       = z_total (zombiePromptsOf getTime results filters None)"
    by (simp add: zombiePromptsOf_def Let_def)
  show "\<exists>sorted k n.
         mset sorted = mset (filter (\<lambda>r. is_zombie (zombie_status r)
                                         \<and> spec_matches_opt getTime filters r) results)
       \<and> sorted = (case pagination of
                     None \<Rightarrow> filteredZombies getTime results filters
                   | Some pg \<Rightarrow> sortedZombies getTime (filteredZombies getTime results filters) pg)
       \<and> z_zombies (zombiePromptsOf getTime results filters pagination)
           = map mapToPromptSummary (take n (drop k sorted))"
  proof (cases pagination)
    case None
    have "filteredZombies getTime results filters
            = take (length (filteredZombies getTime results filters))
                (drop 0 (filteredZombies getTime results filters))"
      by simp
    with None show ?thesis
      by (intro exI [of _ "filteredZombies getTime results filters"] exI [of _ 0]
            exI [of _ "length (filteredZombies getTime results filters)"])
         (simp add: zombiePromptsOf_def Let_def filteredZombies_spec [symmetric])
  next
    case (Some pg)
    obtain k n where
      "js_slice (sortedZombies getTime (filteredZombies getTime results filters) pg)
          ((page pg - 1) * limit pg) ((page pg - 1) * limit pg + limit pg)
        = take n (drop k (sortedZombies getTime (filteredZombies getTime results filters) pg))"
      using js_slice_contiguous by blast
    with Some show ?thesis
      by (intro exI [of _ "sortedZombies getTime (filteredZombies getTime results filters) pg"]
            exI [of _ k] exI [of _ n])
         (simp add: zombiePromptsOf_def Let_def filteredZombies_spec [symmetric]
            mset_sortedZombies)
  qed
next
  assume "fst (getAllResults now w) = Inr results"
  then obtain w' where "getAllResults now w = (Inr results, w')"
    by (metis prod.collapse)
  then show "fst (getZombiePrompts getTime now filters pagination w)
           = Inr (zombiePromptsOf getTime results filters pagination)"
    by (simp add: getZombiePrompts_def)
qed

theorem zombie_query_total_and_slice_witness:
  "fst (getAllResults 2000 calmWorld) = Inr [shambler, survivor]
   \<and> z_total (zombiePromptsOf clock [shambler, survivor] (Some shamblingFilters)
                (Some (parsePagination defaultQuery))) = 1
   \<and> z_total (zombiePromptsOf clock [shambler, survivor] (Some strictFilters)
                (Some (parsePagination defaultQuery))) = 0
   \<and> z_total (zombiePromptsOf clock [shambler, survivor] (Some nanFilters)
                (Some (parsePagination defaultQuery))) = 1
   \<and> fst (getZombiePrompts clock 2000 (Some shamblingFilters)
            (Some (parsePagination defaultQuery)) calmWorld)
       = Inr (zombiePromptsOf clock [shambler, survivor] (Some shamblingFilters)
                (Some (parsePagination defaultQuery)))"
proof -
  have f: "fst (getAllResults 2000 calmWorld) = Inr [shambler, survivor]"
    by (simp add: getAllResults_fresh calmWorld_def cacheTimeout_def)
  note a = zombie_query_total_and_slice [of clock "[shambler, survivor]" "Some shamblingFilters"
      "Some (parsePagination defaultQuery)" 2000 calmWorld]
  note b = zombie_query_total_and_slice [of clock "[shambler, survivor]" "Some strictFilters"
      "Some (parsePagination defaultQuery)" 2000 calmWorld]
  note c = zombie_query_total_and_slice [of clock "[shambler, survivor]" "Some nanFilters"
      "Some (parsePagination defaultQuery)" 2000 calmWorld]
  note total_a = a [THEN conjunct1]
  note total_b = b [THEN conjunct1]
  note total_c = c [THEN conjunct1]
  note wrapped = a [THEN conjunct2, THEN conjunct2, THEN conjunct2, THEN mp, OF f]
  show ?thesis
    using total_a total_b total_c wrapped f
    by (simp add: spec_matches_opt_def example_matches example_records)
qed




end
